theory Spec2Isabelle
  imports Main "HOL-Library.Word" "HOL-Library.AList"
begin

unbundle bit_operations_syntax

section \<open>Bytes, byte order and C strings\<close>

type_synonym byte = "8 word"

text \<open>
  \<open>htons\<close>, \<open>htonl\<close> and \<open>htonll\<close> followed by \<open>fwrite\<close> of the converted
  variable put the value on the stream most significant byte first. The functions below
  give those bytes; \<open>ntohs\<close> and \<open>ntohl\<close> read a field of that layout back.
\<close>

definition htons :: "16 word \<Rightarrow> byte list" where
  "htons w = [ucast (drop_bit 8 w), ucast w]"

definition htonl :: "32 word \<Rightarrow> byte list" where
  "htonl w = [ucast (drop_bit 24 w), ucast (drop_bit 16 w), ucast (drop_bit 8 w), ucast w]"

definition htonll :: "64 word \<Rightarrow> byte list" where
  "htonll w = [ucast (drop_bit 56 w), ucast (drop_bit 48 w), ucast (drop_bit 40 w),
               ucast (drop_bit 32 w), ucast (drop_bit 24 w), ucast (drop_bit 16 w),
               ucast (drop_bit 8 w), ucast w]"

definition ntohs :: "byte list \<Rightarrow> 16 word" where
  "ntohs bs = push_bit 8 (ucast (bs ! 0)) OR ucast (bs ! 1)"

definition ntohl :: "byte list \<Rightarrow> 32 word" where
  "ntohl bs = push_bit 24 (ucast (bs ! 0)) OR push_bit 16 (ucast (bs ! 1))
              OR push_bit 8 (ucast (bs ! 2)) OR ucast (bs ! 3)"

definition ntohll :: "byte list \<Rightarrow> 64 word" where
  "ntohll bs = push_bit 56 (ucast (bs ! 0)) OR push_bit 48 (ucast (bs ! 1))
               OR push_bit 40 (ucast (bs ! 2)) OR push_bit 32 (ucast (bs ! 3))
               OR push_bit 24 (ucast (bs ! 4)) OR push_bit 16 (ucast (bs ! 5))
               OR push_bit 8 (ucast (bs ! 6)) OR ucast (bs ! 7)"

text \<open>The bytes of a C string (without the terminating NUL).\<close>

definition bytes_of :: "string \<Rightarrow> byte list" where
  "bytes_of s = map (\<lambda>c. of_nat (of_char c)) s"

text \<open>\<open>tolower\<close> and \<open>strcasecmp\<close> of the C locale; only whether the result of
  \<open>strcasecmp\<close> is zero is ever used.\<close>

definition tolower :: "char \<Rightarrow> char" where
  "tolower c =
     (case map_of (zip ''ABCDEFGHIJKLMNOPQRSTUVWXYZ'' ''abcdefghijklmnopqrstuvwxyz'') c of
        None \<Rightarrow> c
      | Some l \<Rightarrow> l)"

definition strcasecmp :: "string \<Rightarrow> string \<Rightarrow> int" where
  "strcasecmp s1 s2 = (if map tolower s1 = map tolower s2 then 0 else 1)"

text \<open>The decimal digits that \<open>%d\<close> and \<open>%u\<close> print for a number that is not negative.\<close>

fun dec :: "nat \<Rightarrow> string" where
  "dec n = (if n < 10 then [''0123456789'' ! n]
            else dec (n div 10) @ [''0123456789'' ! (n mod 10)])"

declare dec.simps [simp del]

text \<open>\<open>g_snprintf(dst, n, "%s...", ...)\<close> stores at most \<open>n - 1\<close> characters of the
  formatted text, and none when \<open>n\<close> is 0.\<close>

definition g_snprintf :: "nat \<Rightarrow> string \<Rightarrow> string" where
  "g_snprintf n s = take (n - 1) s"

section \<open>The structured recording\<close>

text \<open>Info header in the structured recording, and frame header.\<close>

definition header_mjr :: string where
  "header_mjr = ''MJR00002''"

definition frame_header :: string where
  "frame_header = ''MEET''"

datatype janus_recorder_medium = JANUS_RECORDER_AUDIO | JANUS_RECORDER_VIDEO | JANUS_RECORDER_DATA

text \<open>The JSON values the info header is built from. An object keeps its keys in
  insertion order (the header is dumped with \<open>JSON_PRESERVE_ORDER\<close>).
  \<open>json_object_set_new\<close> replaces the value of a key that is already there, and
  adds nothing when the value it is given is \<open>NULL\<close> (\<open>None\<close>).\<close>

datatype json = JSON_STRING string | JSON_INTEGER int | JSON_TRUE
  | JSON_OBJECT "(string \<times> json) list"

definition json_object_set_new ::
  "(string \<times> json) list \<Rightarrow> string \<Rightarrow> json option \<Rightarrow> (string \<times> json) list" where
  "json_object_set_new obj key v = (case v of None \<Rightarrow> obj | Some x \<Rightarrow> AList.update key x obj)"

text \<open>
  Modelled from the spec: the normalization context (\<open>janus_rtp_switching_context\<close>,
  declared outside this file). The recorder itself touches the two reset flags and the
  monotonic reference instant; everything else the context holds belongs to
  \<open>janus_rtp_header_update\<close> and is kept as one opaque component.
\<close>

record janus_rtp_switching_context =
  ts_reset :: bool
  seq_reset :: bool
  last_time :: int
  ctx_other :: "nat list"

text \<open>
  The recorder. \<open>gint64\<close> instants are integers (microseconds). The four
  \<open>volatile gint\<close> flags only ever hold 0 or 1 (zeroed allocation,
  \<open>g_atomic_int_set\<close> with 0 or 1, compare-and-exchange between 0 and 1) and are
  booleans. \<open>file'\<close> is the \<open>FILE *\<close>: \<open>None\<close> for \<open>NULL\<close>, otherwise the bytes
  the stream has accepted so far. \<open>extensions\<close> is the hash table from id to name,
  \<open>None\<close> until the first insertion. \<open>ref\<close> is the count of the embedded
  \<open>janus_refcount\<close>.
\<close>

record janus_recorder =
  dir :: "string option"
  filename :: "string option"
  file' :: "byte list option"
  codec :: string
  fmtp :: "string option"
  description :: "string option"
  extensions :: "(int \<times> string) list option"
  created :: int
  started :: int
  type :: janus_recorder_medium
  opusred_pt :: int
  encrypted :: bool
  context' :: janus_rtp_switching_context
  writable :: bool
  header :: bool
  paused :: bool
  destroyed :: bool
  ref :: int

text \<open>\<open>g_atomic_int_compare_and_exchange\<close> on a flag: whether the exchange happened,
  and the value the flag holds afterwards.\<close>

definition g_atomic_int_compare_and_exchange :: "bool \<Rightarrow> bool \<Rightarrow> bool \<Rightarrow> bool \<times> bool" where
  "g_atomic_int_compare_and_exchange v oldval newval =
     (if v = oldval then (True, newval) else (False, v))"

section \<open>The environment of a call\<close>

text \<open>
  What a call of the recorder meets outside the recorder itself: the two clocks, the
  JSON encoder (\<open>json_dumps\<close> returns \<open>NULL\<close> when it cannot encode), the
  normalization of packet headers, the stream and the file system.
  \<open>janus_get_real_time\<close> is read for the creation instant and for the info header,
  and on its own (\<open>janus_get_real_time_data\<close>) for the instant in front of a data
  frame. \<open>fwrite_accepts\<close> says how many bytes the stream takes at each coming
  \<open>fwrite\<close> call, in order; once the list is used up every call takes all it is given.
  \<open>stat\<close>, \<open>janus_mkdir\<close>, \<open>janus_is_folder_protected\<close>, \<open>fopen\<close> (whether
  opening for writing succeeds) and \<open>rename\<close> (0 on success) answer for the file
  system; \<open>dirname\<close> and \<open>basename\<close> are the functions of the C library.
  \<open>utf8_check_string\<close> is the JSON library's test of a string: \<open>json_string\<close>
  returns \<open>NULL\<close> for a string that fails it. \<open>g_hash_table_iter\<close> gives the
  entries of a hash table in the order in which the library's iterator visits them.

  Modelled from the spec: \<open>janus_rtp_header_update\<close> and
  \<open>janus_rtp_switching_context_reset\<close> are defined outside this file. The first
  reads the packet and the normalization context and rewrites the sequence number, the
  timestamp and the source identifier of the header; here it returns the three new
  values (in this order) and the new context. The second gives the context its
  initial state.
\<close>

datatype stat_result = STAT_ENOENT | STAT_ERROR | STAT_ISDIR | STAT_NOTDIR

record env =
  janus_get_monotonic_time :: int
  janus_get_real_time :: int
  janus_get_real_time_data :: int
  json_dumps :: "json \<Rightarrow> string option"
  utf8_check_string :: "string \<Rightarrow> bool"
  g_hash_table_iter :: "(int \<times> string) list \<Rightarrow> (int \<times> string) list"
  janus_rtp_header_update ::
    "byte list \<Rightarrow> janus_rtp_switching_context \<Rightarrow> bool
       \<Rightarrow> (16 word \<times> 32 word \<times> 32 word) \<times> janus_rtp_switching_context"
  janus_rtp_switching_context_reset :: "janus_rtp_switching_context \<Rightarrow> janus_rtp_switching_context"
  fwrite_accepts :: "nat list"
  dirname :: "string \<Rightarrow> string"
  basename :: "string \<Rightarrow> string"
  stat :: "string \<Rightarrow> stat_result"
  janus_mkdir :: "string \<Rightarrow> int"
  janus_is_folder_protected :: "string \<Rightarrow> bool"
  janus_random_uint32 :: "32 word"
  fopen :: "string \<Rightarrow> bool"
  rename :: "string \<Rightarrow> string \<Rightarrow> int"

text \<open>The calls a function makes that change the file system, in order.\<close>

datatype syscall = MKDIR string | FOPEN string | RENAME string string | FCLOSE

text \<open>Whether the filenames get a temporary extension while saving, and the extension.\<close>

record globals =
  rec_tempname :: bool
  rec_tempext :: "string option"


section \<open>Pause and resume\<close>

definition janus_recorder_pause :: "janus_recorder option \<Rightarrow> int \<times> janus_recorder option" where
  "janus_recorder_pause recorder =
     (case recorder of
        None \<Rightarrow> (-1, None)
      | Some rc \<Rightarrow>
          (case g_atomic_int_compare_and_exchange (paused rc) False True of
             (True, v) \<Rightarrow> (0, Some (rc\<lparr>paused := v\<rparr>))
           | (False, v) \<Rightarrow> (-2, Some (rc\<lparr>paused := v\<rparr>))))"

definition janus_recorder_resume :: "env \<Rightarrow> janus_recorder option \<Rightarrow> int \<times> janus_recorder option" where
  "janus_recorder_resume e recorder =
     (case recorder of
        None \<Rightarrow> (-1, None)
      | Some rc \<Rightarrow>
          (case g_atomic_int_compare_and_exchange (paused rc) True False of
             (True, v) \<Rightarrow>
               (let rc1 = rc\<lparr>paused := v\<rparr> in
                if type rc1 = JANUS_RECORDER_AUDIO \<or> type rc1 = JANUS_RECORDER_VIDEO
                then (0, Some (rc1\<lparr>context' := (context' rc1)
                         \<lparr>ts_reset := True, seq_reset := True, last_time := janus_get_monotonic_time e\<rparr>\<rparr>))
                else (0, Some rc1))
           | (False, v) \<Rightarrow> (-2, Some (rc\<lparr>paused := v\<rparr>))))"

section \<open>Configuration setters\<close>

definition janus_recorder_add_extmap ::
  "janus_recorder option \<Rightarrow> int \<Rightarrow> string option \<Rightarrow> int \<times> janus_recorder option" where
  "janus_recorder_add_extmap recorder id' extmap =
     (case recorder of
        None \<Rightarrow> (-1, None)
      | Some rc \<Rightarrow>
          if header rc \<or> id' < 1 \<or> id' > 15 then (-1, Some rc)
          else (case extmap of
                  None \<Rightarrow> (-1, Some rc)
                | Some e \<Rightarrow>
                    (let table = (case extensions rc of None \<Rightarrow> [] | Some t \<Rightarrow> t)
                     in (0, Some (rc\<lparr>extensions := Some (AList.update id' e table)\<rparr>)))))"

definition janus_recorder_description ::
  "janus_recorder option \<Rightarrow> string option \<Rightarrow> int \<times> janus_recorder option" where
  "janus_recorder_description recorder descr =
     (case recorder of
        None \<Rightarrow> (-1, None)
      | Some rc \<Rightarrow>
          (case descr of
             None \<Rightarrow> (-1, Some rc)
           | Some d \<Rightarrow>
               if header rc then (0, Some rc)
               else (0, Some (rc\<lparr>description := Some d\<rparr>))))"

definition janus_recorder_opusred :: "janus_recorder option \<Rightarrow> int \<Rightarrow> int \<times> janus_recorder option" where
  "janus_recorder_opusred recorder red_pt =
     (case recorder of
        None \<Rightarrow> (-1, None)
      | Some rc \<Rightarrow>
          if \<not> header rc then (0, Some (rc\<lparr>opusred_pt := red_pt\<rparr>))
          else (-1, Some rc))"

definition janus_recorder_encrypted :: "janus_recorder option \<Rightarrow> int \<times> janus_recorder option" where
  "janus_recorder_encrypted recorder =
     (case recorder of
        None \<Rightarrow> (-1, None)
      | Some rc \<Rightarrow>
          if \<not> header rc then (0, Some (rc\<lparr>encrypted := True\<rparr>))
          else (-1, Some rc))"

section \<open>Writing a frame\<close>

text \<open>\<open>fwrite(ptr, sz, nmemb, stream)\<close>: the stream takes a prefix of the
  \<open>sz * nmemb\<close> bytes at \<open>ptr\<close>; the result is the number of whole items taken.\<close>

definition fwrite ::
  "byte list \<Rightarrow> nat \<Rightarrow> nat \<Rightarrow> byte list \<Rightarrow> nat list \<Rightarrow> nat \<times> byte list \<times> nat list" where
  "fwrite ptr sz nmemb stream accepts =
     (let want = take (sz * nmemb) ptr;
          k = (case accepts of [] \<Rightarrow> length want | a # _ \<Rightarrow> min a (length want))
      in (k div sz, stream @ take k want, tl accepts))"

subsection \<open>The info header\<close>

text \<open>\<open>json_string\<close> gives \<open>NULL\<close> for a string that is not valid UTF-8.\<close>

definition json_string :: "env \<Rightarrow> string \<Rightarrow> json option" where
  "json_string e s = (if utf8_check_string e s then Some (JSON_STRING s) else None)"

text \<open>The extmaps object, built from the entries of the table in the order in which the
  iterator gives them: one entry per id between 1 and 15 (the values of the table are
  copies of strings, never \<open>NULL\<close>), the key printed with \<open>%d\<close> into
  \<open>id_str[3]\<close>; the object only exists once an entry was to be added.\<close>

fun extmaps_json ::
  "env \<Rightarrow> (int \<times> string) list \<Rightarrow> (string \<times> json) list option \<Rightarrow> (string \<times> json) list option" where
  "extmaps_json e [] extmaps = extmaps"
| "extmaps_json e ((id', extmap) # rest) extmaps =
     extmaps_json e rest
       (if id' > 0 \<and> id' < 16
        then Some (json_object_set_new (case extmaps of None \<Rightarrow> [] | Some x \<Rightarrow> x)
                     (g_snprintf 3 (dec (nat id'))) (json_string e extmap))
        else extmaps)"

definition info_json :: "env \<Rightarrow> janus_recorder \<Rightarrow> int \<Rightarrow> json" where
  "info_json e recorder real_time =
     (let type_str = (case type recorder of
                        JANUS_RECORDER_AUDIO \<Rightarrow> ''a''
                      | JANUS_RECORDER_VIDEO \<Rightarrow> ''v''
                      | JANUS_RECORDER_DATA \<Rightarrow> ''d'');
          info = json_object_set_new [] ''t'' (json_string e type_str);
          info = json_object_set_new info ''c'' (json_string e (codec recorder));
          info = (case fmtp recorder of
                    None \<Rightarrow> info
                  | Some f \<Rightarrow> json_object_set_new info ''f'' (json_string e f));
          info = (case description recorder of
                    None \<Rightarrow> info
                  | Some d \<Rightarrow> json_object_set_new info ''d'' (json_string e d));
          info = (case extensions recorder of
                    None \<Rightarrow> info
                  | Some table \<Rightarrow>
                      (case extmaps_json e (g_hash_table_iter e table) None of
                         None \<Rightarrow> info
                       | Some extmaps \<Rightarrow>
                           json_object_set_new info ''x'' (Some (JSON_OBJECT extmaps))));
          info = json_object_set_new info ''s'' (Some (JSON_INTEGER (created recorder)));
          info = json_object_set_new info ''u'' (Some (JSON_INTEGER real_time));
          info = (if type recorder = JANUS_RECORDER_AUDIO \<and> opusred_pt recorder > 0
                  then json_object_set_new info ''or'' (Some (JSON_INTEGER (opusred_pt recorder)))
                  else info);
          info = (if encrypted recorder
                  then json_object_set_new info ''e'' (Some JSON_TRUE)
                  else info)
      in JSON_OBJECT info)"

text \<open>The block guarded by the \<open>header\<close> flag: \<open>None\<close> when the header cannot be
  converted to text (nothing has been written then), otherwise the recorder with the
  start instant and the flag set, the stream and the rest of \<open>fwrite_accepts\<close>. A
  short write of the length or of the text is only logged.\<close>

definition save_info_header ::
  "env \<Rightarrow> int \<Rightarrow> janus_recorder \<Rightarrow> byte list \<Rightarrow> nat list
     \<Rightarrow> (janus_recorder \<times> byte list \<times> nat list) option" where
  "save_info_header e now recorder f acc =
     (case json_dumps e (info_json e recorder (janus_get_real_time e)) of
        None \<Rightarrow> None
      | Some info_text \<Rightarrow>
          (let info_bytes = htons (word_of_nat (length info_text)) in
           case fwrite info_bytes 2 1 f acc of (res, f1, acc1) \<Rightarrow>
           case fwrite (bytes_of info_text) 1 (length info_text) f1 acc1 of (res, f2, acc2) \<Rightarrow>
             Some (recorder\<lparr>started := now, header := True\<rparr>, f2, acc2)))"

subsection \<open>The frame header\<close>

text \<open>Fixed part, timestamp and length, and for data the instant in front of the
  payload. The timestamp is a \<open>gint64\<close> cast to \<open>uint32_t\<close>; the length is
  \<open>length\<close>, or \<open>length + sizeof(gint64)\<close> computed in \<open>size_t\<close>, cast to
  \<open>uint16_t\<close>. Short writes are only logged.\<close>

definition save_frame_header ::
  "env \<Rightarrow> int \<Rightarrow> janus_recorder \<Rightarrow> 32 word \<Rightarrow> byte list \<Rightarrow> nat list \<Rightarrow> byte list \<times> nat list" where
  "save_frame_header e now recorder len f acc =
     (case fwrite (bytes_of frame_header) 1 (length frame_header) f acc of (res, f1, acc1) \<Rightarrow>
      let timestamp = (word_of_int (if now > started recorder
                                    then (now - started recorder) div 1000 else 0) :: 32 word) in
      case fwrite (htonl timestamp) 4 1 f1 acc1 of (res, f2, acc2) \<Rightarrow>
      let header_bytes = (if type recorder = JANUS_RECORDER_DATA
                          then word_of_nat (unat len + 8) else ucast len :: 16 word) in
      case fwrite (htons header_bytes) 2 1 f2 acc2 of (res, f3, acc3) \<Rightarrow>
      if type recorder = JANUS_RECORDER_DATA
      then (case fwrite (htonll (word_of_int (janus_get_real_time_data e))) 8 1 f3 acc3 of
              (res, f4, acc4) \<Rightarrow> (f4, acc4))
      else (f3, acc3))"

subsection \<open>The packet header\<close>

text \<open>
  Modelled from the spec: \<open>janus_rtp_header\<close> is declared outside this file. It is
  the fixed RTP header laid over the start of the buffer: two bytes of flags and payload
  type, then the sequence number (bytes 2-3), the timestamp (bytes 4-7) and the source
  identifier (bytes 8-11), each in network byte order.
\<close>

definition peek :: "nat \<Rightarrow> nat \<Rightarrow> byte list \<Rightarrow> byte list" where
  "peek off n buf = take n (drop off buf)"

definition poke :: "nat \<Rightarrow> byte list \<Rightarrow> byte list \<Rightarrow> byte list" where
  "poke off bs buf = take off buf @ bs @ drop (off + length bs) buf"

definition get_seq_number :: "byte list \<Rightarrow> 16 word" where
  "get_seq_number buf = ntohs (peek 2 2 buf)"

definition get_timestamp :: "byte list \<Rightarrow> 32 word" where
  "get_timestamp buf = ntohl (peek 4 4 buf)"

definition get_ssrc :: "byte list \<Rightarrow> 32 word" where
  "get_ssrc buf = ntohl (peek 8 4 buf)"

definition set_seq_number :: "16 word \<Rightarrow> byte list \<Rightarrow> byte list" where
  "set_seq_number v buf = poke 2 (htons v) buf"

definition set_timestamp :: "32 word \<Rightarrow> byte list \<Rightarrow> byte list" where
  "set_timestamp v buf = poke 4 (htonl v) buf"

definition set_ssrc :: "32 word \<Rightarrow> byte list \<Rightarrow> byte list" where
  "set_ssrc v buf = poke 8 (htonl v) buf"

text \<open>Editing the packet header if needed: audio and video packets get the values
  of the normalization, data is left alone. The result is the buffer as it is written
  and the context afterwards.\<close>

definition edit_packet_header ::
  "env \<Rightarrow> janus_recorder \<Rightarrow> byte list \<Rightarrow> byte list \<times> janus_rtp_switching_context" where
  "edit_packet_header e recorder buf =
     (if type recorder \<noteq> JANUS_RECORDER_DATA
      then (case janus_rtp_header_update e buf (context' recorder)
                   (type recorder = JANUS_RECORDER_VIDEO) of
              ((seq1, timestamp1, ssrc1), ctx) \<Rightarrow>
                (set_ssrc ssrc1 (set_timestamp timestamp1 (set_seq_number seq1 buf)), ctx))
      else (buf, context' recorder))"

subsection \<open>The payload\<close>

text \<open>The retry loop: \<open>tot\<close> bytes are left, each \<open>fwrite\<close> starts at
  \<open>buffer + length - tot\<close>; a call that takes nothing ends the loop with failure.\<close>

function save_packet ::
  "byte list \<Rightarrow> nat \<Rightarrow> int \<Rightarrow> byte list \<Rightarrow> nat list \<Rightarrow> bool \<times> byte list \<times> nat list" where
  "save_packet buffer len tot f acc =
     (if tot > 0 then
        (case fwrite (drop (len - nat tot) buffer) 1 (nat tot) f acc of
           (temp, f1, acc1) \<Rightarrow>
             if int temp \<le> 0 then (False, f1, acc1)
             else save_packet buffer len (tot - int temp) f1 acc1)
      else (True, f, acc))"
  by pat_completeness auto
termination
  by (relation "measure (\<lambda>(buffer, len, tot, f, acc). nat tot)") auto

declare save_packet.simps [simp del]

subsection \<open>The whole operation\<close>

text \<open>
  The result is \<open>None\<close> when the call reads or writes outside the buffer (a packet
  header in a buffer of fewer than 12 bytes, a payload longer than the buffer), which C
  leaves undefined. Otherwise it is the returned code, the recorder and the caller's
  buffer as the call leaves them.
\<close>

definition janus_recorder_save_frame ::
  "env \<Rightarrow> janus_recorder option \<Rightarrow> byte list option \<Rightarrow> 32 word
     \<Rightarrow> (int \<times> janus_recorder option \<times> byte list option) option" where
  "janus_recorder_save_frame e recorder buffer len =
     (case recorder of
        None \<Rightarrow> Some (-1, None, buffer)
      | Some rc \<Rightarrow>
     (case buffer of
        None \<Rightarrow> Some (-2, Some rc, buffer)
      | Some buf \<Rightarrow>
     if len < 1 then Some (-2, Some rc, buffer)
     else
     (case file' rc of
        None \<Rightarrow> Some (-3, Some rc, buffer)
      | Some f \<Rightarrow>
     if \<not> writable rc then Some (-4, Some rc, buffer)
     else if paused rc then Some (-5, Some rc, buffer)
     else
       (let now = janus_get_monotonic_time e in
        case (if \<not> header rc then save_info_header e now rc f (fwrite_accepts e)
              else Some (rc, f, fwrite_accepts e)) of
          None \<Rightarrow> Some (-5, Some rc, buffer)
        | Some (rc1, f1, acc1) \<Rightarrow>
        (case save_frame_header e now rc1 len f1 acc1 of (f2, acc2) \<Rightarrow>
         if type rc1 \<noteq> JANUS_RECORDER_DATA \<and> length buf < 12 then None
         else
         (let ssrc = (if type rc1 \<noteq> JANUS_RECORDER_DATA then get_ssrc buf else 0);
              seq = (if type rc1 \<noteq> JANUS_RECORDER_DATA then get_seq_number buf else 0);
              timestamp = (if type rc1 \<noteq> JANUS_RECORDER_DATA then get_timestamp buf else 0);
              (buf1, ctx1) = edit_packet_header e rc1 buf;
              tot = sint len
          in
          if tot > 0 \<and> length buf1 < unat len then None
          else
          (case save_packet buf1 (unat len) tot f2 acc2 of (ok, f3, acc3) \<Rightarrow>
           let buf2 = (if type rc1 \<noteq> JANUS_RECORDER_DATA
                       then set_timestamp timestamp (set_seq_number seq (set_ssrc ssrc buf1))
                       else buf1);
               rc2 = rc1\<lparr>file' := Some f3, context' := ctx1\<rparr>
           in Some (if ok then 0 else -6, Some rc2, Some buf2))))))))"

section \<open>Close and destroy\<close>

text \<open>
  The result is \<open>None\<close> when the call does what C leaves undefined (a \<open>NULL\<close>
  filename or extension given to \<open>strlen\<close>, a name that does not fit
  \<open>newname[1024]\<close>). Otherwise it is the returned code, the recorder as the call leaves
  it, and the calls made on the file system. The length given to \<open>g_snprintf\<close> is a
  difference of two \<open>size_t\<close> and wraps around below zero. Reading the size of the
  file only feeds a log line; the stream is not written again, since \<open>writable\<close> is
  never set back.
\<close>

definition janus_recorder_close ::
  "globals \<Rightarrow> env \<Rightarrow> janus_recorder option \<Rightarrow> (int \<times> janus_recorder option \<times> syscall list) option" where
  "janus_recorder_close g e recorder =
     (case recorder of
        None \<Rightarrow> Some (-1, None, [])
      | Some rc \<Rightarrow>
     (case g_atomic_int_compare_and_exchange (writable rc) True False of
        (False, v) \<Rightarrow> Some (-1, Some (rc\<lparr>writable := v\<rparr>), [])
      | (True, v) \<Rightarrow>
          (let rc1 = rc\<lparr>writable := v\<rparr> in
           if rec_tempname g then
             (case (filename rc1, rec_tempext g) of
                (Some fname, Some ext) \<Rightarrow>
                  (let n = (if length ext \<le> length fname
                            then length fname - length ext
                            else 2 ^ 64 + length fname - length ext);
                       newname = g_snprintf n fname
                   in
                   if length newname > 1023 then None
                   else
                   (let (oldpath, newpath) =
                          (case dir rc1 of
                             Some d \<Rightarrow> (g_snprintf 1024 (d @ ''/'' @ fname),
                                        g_snprintf 1024 (d @ ''/'' @ newname))
                           | None \<Rightarrow> (g_snprintf 1024 fname, g_snprintf 1024 newname))
                    in
                    if rename e oldpath newpath \<noteq> 0
                    then Some (0, Some rc1, [RENAME oldpath newpath])
                    else Some (0, Some (rc1\<lparr>filename := Some newname\<rparr>),
                               [RENAME oldpath newpath])))
              | _ \<Rightarrow> None)
           else Some (0, Some rc1, []))))"

text \<open>Freeing the recorder closes it once more and closes the stream; the object is
  gone afterwards, so only the calls on the file system remain.\<close>

definition janus_recorder_free :: "globals \<Rightarrow> env \<Rightarrow> janus_recorder \<Rightarrow> syscall list option" where
  "janus_recorder_free g e recorder =
     (case janus_recorder_close g e (Some recorder) of
        None \<Rightarrow> None
      | Some (r, rc1, calls) \<Rightarrow>
          Some (calls @ (case file' recorder of None \<Rightarrow> [] | Some f \<Rightarrow> [FCLOSE])))"

text \<open>
  Modelled from the spec: \<open>janus_refcount_decrease\<close> is defined outside this file.
  It takes one from the count, and when the count reaches zero it calls the free
  callback given to \<open>janus_refcount_init\<close>, here \<open>janus_recorder_free\<close>. The
  recorder in the result is \<open>None\<close> once the object has been freed.
\<close>

definition janus_refcount_decrease ::
  "globals \<Rightarrow> env \<Rightarrow> janus_recorder \<Rightarrow> (janus_recorder option \<times> syscall list) option" where
  "janus_refcount_decrease g e rc =
     (let rc1 = rc\<lparr>ref := ref rc - 1\<rparr> in
      if ref rc1 = 0
      then (case janus_recorder_free g e rc1 of
              None \<Rightarrow> None
            | Some calls \<Rightarrow> Some (None, calls))
      else Some (Some rc1, []))"

definition janus_recorder_destroy ::
  "globals \<Rightarrow> env \<Rightarrow> janus_recorder option \<Rightarrow> (janus_recorder option \<times> syscall list) option" where
  "janus_recorder_destroy g e recorder =
     (case recorder of
        None \<Rightarrow> Some (None, [])
      | Some rc \<Rightarrow>
          (case g_atomic_int_compare_and_exchange (destroyed rc) False True of
             (False, v) \<Rightarrow> Some (Some (rc\<lparr>destroyed := v\<rparr>), [])
           | (True, v) \<Rightarrow> janus_refcount_decrease g e (rc\<lparr>destroyed := v\<rparr>)))"

section \<open>Construction\<close>

text \<open>The codec decides the medium; a codec that is not recognized has none.\<close>

definition codec_medium :: "string \<Rightarrow> janus_recorder_medium option" where
  "codec_medium cdc =
     (if strcasecmp cdc ''vp8'' = 0 \<or> strcasecmp cdc ''vp9'' = 0 \<or> strcasecmp cdc ''h264'' = 0
         \<or> strcasecmp cdc ''av1'' = 0 \<or> strcasecmp cdc ''h265'' = 0
      then Some JANUS_RECORDER_VIDEO
      else if strcasecmp cdc ''opus'' = 0 \<or> strcasecmp cdc ''multiopus'' = 0
         \<or> strcasecmp cdc ''g711'' = 0 \<or> strcasecmp cdc ''pcmu'' = 0 \<or> strcasecmp cdc ''pcma'' = 0
         \<or> strcasecmp cdc ''g722'' = 0 \<or> strcasecmp cdc ''l16-48'' = 0 \<or> strcasecmp cdc ''l16'' = 0
      then Some JANUS_RECORDER_AUDIO
      else if strcasecmp cdc ''text'' = 0 \<or> strcasecmp cdc ''binary'' = 0
      then Some JANUS_RECORDER_DATA
      else None)"

text \<open>Every failure after the allocation destroys the recorder and returns \<open>NULL\<close>.\<close>

definition create_failed ::
  "globals \<Rightarrow> env \<Rightarrow> janus_recorder \<Rightarrow> syscall list \<Rightarrow> (janus_recorder option \<times> syscall list) option" where
  "create_failed g e rc calls =
     (case janus_recorder_destroy g e (Some rc) of
        None \<Rightarrow> None
      | Some (r, calls1) \<Rightarrow> Some (None, calls @ calls1))"

text \<open>
  The result is \<open>None\<close> when the call does what C leaves undefined (a \<open>NULL\<close>
  extension printed with \<open>%s\<close>). Otherwise it is the recorder (\<open>None\<close> for
  \<open>NULL\<close>) and the calls made on the file system. The zeroed allocation has the
  first medium of the enumeration, no strings, no table and cleared flags.
\<close>

definition janus_recorder_create_full ::
  "globals \<Rightarrow> env \<Rightarrow> string option \<Rightarrow> string option \<Rightarrow> string option \<Rightarrow> string option
     \<Rightarrow> (janus_recorder option \<times> syscall list) option" where
  "janus_recorder_create_full g e dir_arg codec_arg fmtp_arg filename_arg =
     (case codec_arg of
        None \<Rightarrow> Some (None, [])
      | Some cdc \<Rightarrow>
     (case codec_medium cdc of
        None \<Rightarrow> Some (None, [])
      | Some ty \<Rightarrow>
     (let rc = \<lparr>dir = None, filename = None, file' = None, codec = cdc, fmtp = fmtp_arg,
                description = None, extensions = None, created = janus_get_real_time e,
                started = 0, type = JANUS_RECORDER_AUDIO, opusred_pt = 0, encrypted = False,
                context' = janus_rtp_switching_context_reset e
                   \<lparr>ts_reset = False, seq_reset = False, last_time = 0, ctx_other = []\<rparr>,
                writable = False, header = False, paused = False, destroyed = False, ref = 1\<rparr>;
          (rec_dir, rec_file) =
            (case filename_arg of
               None \<Rightarrow> (None, None)
             | Some fname \<Rightarrow>
                 (case dir_arg of
                    None \<Rightarrow> (Some (dirname e fname), Some (basename e fname))
                  | Some d \<Rightarrow> (Some d, Some fname)));
          (dir_ok, calls) =
            (case rec_dir of
               None \<Rightarrow> (True, [])
             | Some d \<Rightarrow>
                 (case stat e d of
                    STAT_ENOENT \<Rightarrow> (\<not> janus_mkdir e d < 0, [MKDIR d])
                  | STAT_ERROR \<Rightarrow> (False, [])
                  | STAT_ISDIR \<Rightarrow> (True, [])
                  | STAT_NOTDIR \<Rightarrow> (False, [])))
      in
      if \<not> dir_ok then create_failed g e rc calls
      else if rec_tempname g \<and> rec_tempext g = None then None
      else
      (let suffix = (if \<not> rec_tempname g then ''.mjr''
                     else ''.mjr.'' @ (case rec_tempext g of None \<Rightarrow> [] | Some x \<Rightarrow> x));
           newname = g_snprintf 1024
                       (case rec_file of
                          None \<Rightarrow> ''janus-recording-'' @ dec (unat (janus_random_uint32 e)) @ suffix
                        | Some rf \<Rightarrow> rf @ suffix);
           path = (case rec_dir of
                     None \<Rightarrow> newname
                   | Some d \<Rightarrow> g_snprintf 1024 (d @ ''/'' @ newname))
       in
       if janus_is_folder_protected e path then create_failed g e rc calls
       else if \<not> fopen e path then create_failed g e rc (calls @ [FOPEN path])
       else
       (let rc1 = rc\<lparr>file' := Some [], dir := rec_dir, filename := Some newname, type := ty\<rparr> in
        case fwrite (bytes_of header_mjr) 1 (length header_mjr) [] (fwrite_accepts e) of
          (res, f, acc) \<Rightarrow>
            if res \<noteq> length header_mjr
            then create_failed g e (rc1\<lparr>file' := Some f\<rparr>) (calls @ [FOPEN path])
            else Some (Some (rc1\<lparr>file' := Some f, writable := True, header := False,
                                  destroyed := False\<rparr>),
                       calls @ [FOPEN path]))))))"

definition janus_recorder_create ::
  "globals \<Rightarrow> env \<Rightarrow> string option \<Rightarrow> string option \<Rightarrow> string option
     \<Rightarrow> (janus_recorder option \<times> syscall list) option" where
  "janus_recorder_create g e dir_arg codec_arg filename_arg =
     janus_recorder_create_full g e dir_arg codec_arg None filename_arg"

section \<open>Sequences of calls\<close>

text \<open>The calls a holder of a recorder can make, each with the environment (and the
  global settings) it meets. Running a sequence of calls gives the recorder after the
  last one; there is none when a call is undefined or the object has been freed.\<close>

datatype call =
    PAUSE
  | RESUME env
  | ADD_EXTMAP int "string option"
  | DESCRIPTION "string option"
  | OPUSRED int
  | ENCRYPTED
  | SAVE_FRAME env "byte list option" "32 word"
  | CLOSE globals env
  | DESTROY globals env

fun step :: "janus_recorder \<Rightarrow> call \<Rightarrow> janus_recorder option" where
  "step rc PAUSE = snd (janus_recorder_pause (Some rc))"
| "step rc (RESUME e) = snd (janus_recorder_resume e (Some rc))"
| "step rc (ADD_EXTMAP id' extmap) = snd (janus_recorder_add_extmap (Some rc) id' extmap)"
| "step rc (DESCRIPTION d) = snd (janus_recorder_description (Some rc) d)"
| "step rc (OPUSRED red_pt) = snd (janus_recorder_opusred (Some rc) red_pt)"
| "step rc ENCRYPTED = snd (janus_recorder_encrypted (Some rc))"
| "step rc (SAVE_FRAME e buffer len) =
     (case janus_recorder_save_frame e (Some rc) buffer len of
        None \<Rightarrow> None
      | Some (r, rc1, buffer1) \<Rightarrow> rc1)"
| "step rc (CLOSE g e) =
     (case janus_recorder_close g e (Some rc) of
        None \<Rightarrow> None
      | Some (r, rc1, calls) \<Rightarrow> rc1)"
| "step rc (DESTROY g e) =
     (case janus_recorder_destroy g e (Some rc) of
        None \<Rightarrow> None
      | Some (rc1, calls) \<Rightarrow> rc1)"

fun run :: "janus_recorder \<Rightarrow> call list \<Rightarrow> janus_recorder option" where
  "run rc [] = Some rc"
| "run rc (c # cs) = (case step rc c of None \<Rightarrow> None | Some rc1 \<Rightarrow> run rc1 cs)"

section \<open>The container format in the words of the spec\<close>



text \<open>The configuration of a recording: the fields the info header is built from.\<close>

definition configuration ::
  "janus_recorder \<Rightarrow> janus_recorder_medium \<times> string \<times> string option \<times> string option
     \<times> (int \<times> string) list option \<times> int \<times> int \<times> bool" where
  "configuration rc =
     (type rc, codec rc, fmtp rc, description rc, extensions rc, created rc, opusred_pt rc,
      encrypted rc)"

text \<open>The calls that configure the info header.\<close>

fun is_setter :: "call \<Rightarrow> bool" where
  "is_setter (ADD_EXTMAP id' extmap) = True"
| "is_setter (DESCRIPTION d) = True"
| "is_setter (OPUSRED red_pt) = True"
| "is_setter ENCRYPTED = True"
| "is_setter c = False"

section \<open>Examples\<close>

text \<open>An environment in which every call of the system succeeds, a recorder in the
  state construction leaves it in, and an RTP packet of 13 bytes (sequence number
  0x0102, timestamp 0x03040506, source identifier 0x0708090A).\<close>

definition example_env :: env where
  "example_env =
     \<lparr>janus_get_monotonic_time = 1000000, janus_get_real_time = 5,
      janus_get_real_time_data = 258,
      json_dumps = (\<lambda>j. Some ''{}''),
      utf8_check_string = (\<lambda>s. True), g_hash_table_iter = (\<lambda>table. table),
      janus_rtp_header_update = (\<lambda>buf ctx video. ((17, 34, 51), ctx\<lparr>ts_reset := False, seq_reset := False\<rparr>)),
      janus_rtp_switching_context_reset = (\<lambda>ctx. ctx\<lparr>ts_reset := True, seq_reset := True\<rparr>),
      fwrite_accepts = [],
      dirname = (\<lambda>p. ''.''), basename = (\<lambda>p. p), stat = (\<lambda>p. STAT_ISDIR),
      janus_mkdir = (\<lambda>p. 0), janus_is_folder_protected = (\<lambda>p. False),
      janus_random_uint32 = 42, fopen = (\<lambda>p. True), rename = (\<lambda>old new. 0)\<rparr>"

definition example_recorder :: "janus_recorder_medium \<Rightarrow> string \<Rightarrow> janus_recorder" where
  "example_recorder ty cdc =
     \<lparr>dir = Some ''.'', filename = Some ''s1.mjr'', file' = Some (bytes_of header_mjr),
      codec = cdc, fmtp = None, description = None, extensions = None, created = 5,
      started = 0, type = ty, opusred_pt = 0, encrypted = False,
      context' = \<lparr>ts_reset = True, seq_reset = True, last_time = 0, ctx_other = []\<rparr>,
      writable = True, header = False, paused = False, destroyed = False, ref = 1\<rparr>"

definition example_packet :: "byte list" where
  "example_packet = [128, 111, 1, 2, 3, 4, 5, 6, 7, 8, 9, 10, 255]"

text \<open>A conversion to text for the examples: it lists the keys of an object, each with
  the string it holds.\<close>

definition example_dumps :: "json \<Rightarrow> string option" where
  "example_dumps j =
     (case j of
        JSON_OBJECT kvs \<Rightarrow>
          Some (concat (map (\<lambda>(k, v). k @ (case v of JSON_STRING s \<Rightarrow> ''='' @ s | _ \<Rightarrow> []) @ '';'')
                          kvs))
      | _ \<Rightarrow> None)"

section \<open>Properties\<close>

subsection \<open>Byte order\<close>

lemma htons_ntohs: "htons (ntohs [a, b]) = [a, b]"
  apply (simp add: htons_def ntohs_def)
  apply (intro conjI bit_word_eqI)
   apply (auto simp add: bit_simps dest: bit_imp_le_length)
  done

lemma htonl_ntohl: "htonl (ntohl [a, b, c, d]) = [a, b, c, d]"
  apply (simp add: htonl_def ntohl_def)
  apply (intro conjI bit_word_eqI)
     apply (auto simp add: bit_simps dest: bit_imp_le_length)
  done










lemma sint_pos_unat:
  assumes "0 < sint (w :: 'a::len word)"
  shows "nat (sint w) = unat w"
proof -
  have "sint w < 2 ^ (LENGTH('a) - 1)" by (rule sint_lt)
  also have "(2::int) ^ (LENGTH('a) - 1) \<le> 2 ^ LENGTH('a)" by (rule power_increasing) simp_all
  finally have lt: "sint w < 2 ^ LENGTH('a)" .
  have "uint w = take_bit LENGTH('a) (sint w)" by (rule uint_sint)
  also have "\<dots> = sint w" using assms lt by (simp add: take_bit_int_eq_self)
  finally show ?thesis by (simp add: unat_eq_nat_uint)
qed




subsection \<open>Writing to the stream\<close>

lemma fwrite_all:
  "fwrite ptr sz nmemb stream [] =
     (length (take (sz * nmemb) ptr) div sz, stream @ take (sz * nmemb) ptr, [])"
  by (simp add: fwrite_def)

lemma save_packet_all:
  assumes "nat tot \<le> length (drop (len - nat tot) buffer)"
  shows "save_packet buffer len tot f [] =
           (True, f @ take (nat tot) (drop (len - nat tot) buffer), [])"
proof (cases "tot > 0")
  case True
  then show ?thesis using assms
    apply (subst save_packet.simps)
    apply (simp add: fwrite_all)
    apply (subst save_packet.simps)
    apply (simp add: min_def)
    done
next
  case False
  then show ?thesis by (subst save_packet.simps) simp
qed

subsection \<open>The packet header\<close>

lemma length_12:
  "length (ys :: 'a list) = 12 \<Longrightarrow>
     \<exists>b0 b1 b2 b3 b4 b5 b6 b7 b8 b9 b10 b11. ys = [b0, b1, b2, b3, b4, b5, b6, b7, b8, b9, b10, b11]"
  by (auto simp add: eval_nat_numeral length_Suc_conv)

lemma header_bytes:
  assumes "12 \<le> length (buf :: 'a list)"
  shows "\<exists>b0 b1 b2 b3 b4 b5 b6 b7 b8 b9 b10 b11 rest.
           buf = b0 # b1 # b2 # b3 # b4 # b5 # b6 # b7 # b8 # b9 # b10 # b11 # rest"
proof -
  have "buf = take 12 buf @ drop 12 buf" by simp
  moreover have "length (take 12 buf) = 12" using assms by simp
  from length_12[OF this] obtain b0 b1 b2 b3 b4 b5 b6 b7 b8 b9 b10 b11 where
    "take 12 buf = [b0, b1, b2, b3, b4, b5, b6, b7, b8, b9, b10, b11]" by blast
  ultimately have "buf = b0 # b1 # b2 # b3 # b4 # b5 # b6 # b7 # b8 # b9 # b10 # b11 # drop 12 buf"
    by (metis append_Cons append_Nil)
  then show ?thesis by blast
qed

text \<open>Putting back the three values read before the edit gives the buffer the caller
  passed, whatever the edit wrote into the three fields.\<close>

lemma restore_header:
  assumes "12 \<le> length buf"
  shows "set_timestamp (get_timestamp buf) (set_seq_number (get_seq_number buf)
           (set_ssrc (get_ssrc buf)
              (set_ssrc s1 (set_timestamp t1 (set_seq_number q1 buf))))) = buf"
proof -
  from header_bytes[OF assms] obtain b0 b1 b2 b3 b4 b5 b6 b7 b8 b9 b10 b11 rest
    where buf: "buf = b0 # b1 # b2 # b3 # b4 # b5 # b6 # b7 # b8 # b9 # b10 # b11 # rest"
    by blast
  show ?thesis
    unfolding buf
    by (simp add: set_timestamp_def set_seq_number_def set_ssrc_def get_timestamp_def
        get_seq_number_def get_ssrc_def poke_def peek_def htonl_ntohl htons_ntohs
        htonl_def[of s1] htonl_def[of t1] htons_def[of q1])
qed

lemma length_edit_packet_header:
  "edit_packet_header e rc buf = (buf1, ctx1) \<Longrightarrow> 12 \<le> length buf \<Longrightarrow> length buf1 = length buf"
  by (auto simp add: edit_packet_header_def set_timestamp_def set_seq_number_def set_ssrc_def
      poke_def htonl_def htons_def split: prod.splits if_splits)

lemma restore_edit_packet_header:
  "edit_packet_header e rc buf = (buf1, ctx1) \<Longrightarrow> 12 \<le> length buf \<Longrightarrow>
     type rc \<noteq> JANUS_RECORDER_DATA \<Longrightarrow>
     set_timestamp (get_timestamp buf) (set_seq_number (get_seq_number buf)
       (set_ssrc (get_ssrc buf) buf1)) = buf"
  by (auto simp add: edit_packet_header_def restore_header split: prod.splits)

lemma edit_packet_header_data:
  "edit_packet_header e rc buf = (buf1, ctx1) \<Longrightarrow> type rc = JANUS_RECORDER_DATA \<Longrightarrow>
     buf1 = buf \<and> ctx1 = context' rc"
  by (simp add: edit_packet_header_def)

subsection \<open>Pause and resume\<close>

text \<open>
  C6. Pause succeeds (returns 0) exactly when the recorder is not paused, and then sets
  the paused flag; otherwise it fails with -2 and changes nothing. Resume succeeds
  exactly when the recorder is paused, and then clears the flag; otherwise it fails with
  -2 and changes nothing. A successful resume on an audio or video recorder marks the
  timestamp and sequence baselines of the normalization context for resetting and stamps
  the monotonic instant; on a data recorder it leaves the context alone. A \<open>NULL\<close>
  recorder gives -1.
\<close>

theorem pause_resume_transitions:
  "janus_recorder_pause None = (-1, None) \<and>
   janus_recorder_resume e None = (-1, None) \<and>
   (\<not> paused rc \<longrightarrow> janus_recorder_pause (Some rc) = (0, Some (rc\<lparr>paused := True\<rparr>))) \<and>
   (paused rc \<longrightarrow> janus_recorder_pause (Some rc) = (-2, Some rc)) \<and>
   (\<not> paused rc \<longrightarrow> janus_recorder_resume e (Some rc) = (-2, Some rc)) \<and>
   (paused rc \<and> type rc \<noteq> JANUS_RECORDER_DATA \<longrightarrow>
      janus_recorder_resume e (Some rc) =
        (0, Some (rc\<lparr>paused := False,
                     context' := (context' rc)\<lparr>ts_reset := True, seq_reset := True,
                                                 last_time := janus_get_monotonic_time e\<rparr>\<rparr>))) \<and>
   (paused rc \<and> type rc = JANUS_RECORDER_DATA \<longrightarrow>
      janus_recorder_resume e (Some rc) = (0, Some (rc\<lparr>paused := False\<rparr>)))"
  by (cases "type rc")
     (auto simp add: janus_recorder_pause_def janus_recorder_resume_def
        g_atomic_int_compare_and_exchange_def)

theorem pause_resume_transitions_witness:
  "janus_recorder_pause (Some (example_recorder JANUS_RECORDER_VIDEO ''vp8'')) =
     (0, Some ((example_recorder JANUS_RECORDER_VIDEO ''vp8'')\<lparr>paused := True\<rparr>)) \<and>
   janus_recorder_pause (Some ((example_recorder JANUS_RECORDER_VIDEO ''vp8'')\<lparr>paused := True\<rparr>)) =
     (-2, Some ((example_recorder JANUS_RECORDER_VIDEO ''vp8'')\<lparr>paused := True\<rparr>)) \<and>
   janus_recorder_resume example_env (Some (example_recorder JANUS_RECORDER_VIDEO ''vp8'')) =
     (-2, Some (example_recorder JANUS_RECORDER_VIDEO ''vp8'')) \<and>
   janus_recorder_resume example_env
       (Some ((example_recorder JANUS_RECORDER_VIDEO ''vp8'')
                \<lparr>paused := True,
                 context' := \<lparr>ts_reset = False, seq_reset = False, last_time = 7, ctx_other = [1]\<rparr>\<rparr>)) =
     (0, Some ((example_recorder JANUS_RECORDER_VIDEO ''vp8'')
                \<lparr>paused := False,
                 context' := \<lparr>ts_reset = True, seq_reset = True, last_time = 1000000,
                              ctx_other = [1]\<rparr>\<rparr>)) \<and>
   janus_recorder_resume example_env
       (Some ((example_recorder JANUS_RECORDER_DATA ''text'')
                \<lparr>paused := True,
                 context' := \<lparr>ts_reset = False, seq_reset = False, last_time = 7, ctx_other = [1]\<rparr>\<rparr>)) =
     (0, Some ((example_recorder JANUS_RECORDER_DATA ''text'')
                \<lparr>paused := False,
                 context' := \<lparr>ts_reset = False, seq_reset = False, last_time = 7,
                              ctx_other = [1]\<rparr>\<rparr>))"
  using pause_resume_transitions[of example_env "example_recorder JANUS_RECORDER_VIDEO ''vp8''"]
    pause_resume_transitions[of example_env
      "(example_recorder JANUS_RECORDER_VIDEO ''vp8'')\<lparr>paused := True\<rparr>"]
    pause_resume_transitions[of example_env
      "(example_recorder JANUS_RECORDER_VIDEO ''vp8'')
         \<lparr>paused := True,
          context' := \<lparr>ts_reset = False, seq_reset = False, last_time = 7, ctx_other = [1]\<rparr>\<rparr>"]
    pause_resume_transitions[of example_env
      "(example_recorder JANUS_RECORDER_DATA ''text'')
         \<lparr>paused := True,
          context' := \<lparr>ts_reset = False, seq_reset = False, last_time = 7, ctx_other = [1]\<rparr>\<rparr>"]
  by (simp add: example_recorder_def example_env_def)

subsection \<open>Evaluating the examples\<close>

lemmas example_defs = example_env_def example_recorder_def example_packet_def

lemmas save_frame_defs =
  janus_recorder_save_frame_def save_info_header_def save_frame_header_def
  edit_packet_header_def fwrite_def save_packet.simps bytes_of_def header_mjr_def
  frame_header_def htons_def htonl_def htonll_def set_ssrc_def set_timestamp_def
  set_seq_number_def get_ssrc_def get_timestamp_def get_seq_number_def peek_def poke_def
  ntohl_def ntohs_def

subsection \<open>Configuration setters\<close>

lemma setter_step_after_header: "header rc \<Longrightarrow> is_setter c \<Longrightarrow> step rc c = Some rc"
  by (cases c)
     (auto simp add: janus_recorder_add_extmap_def janus_recorder_opusred_def
        janus_recorder_encrypted_def janus_recorder_description_def split: option.splits)

lemma setters_run_after_header: "header rc \<Longrightarrow> list_all is_setter cs \<Longrightarrow> run rc cs = Some rc"
  by (induction cs) (simp_all add: setter_step_after_header)

subsection \<open>Writing a frame: the checks\<close>

text \<open>
  C4. The frame write checks, in this order, that the buffer is there and not empty
  (-2 otherwise), that the stream is there (-3), that the recorder is writable (-4) and
  that it is not paused (-5). An earlier check that fails decides the result whatever
  the later ones would say; the three codes -2, -4 and -5 differ; and a call that fails
  a check leaves the recorder, and with it the stream, and the buffer as they were.
\<close>

theorem save_frame_preconditions:
  "(buffer = None \<or> len < 1 \<longrightarrow>
      janus_recorder_save_frame e (Some rc) buffer len = Some (-2, Some rc, buffer)) \<and>
   (buffer \<noteq> None \<and> 1 \<le> len \<and> file' rc = None \<longrightarrow>
      janus_recorder_save_frame e (Some rc) buffer len = Some (-3, Some rc, buffer)) \<and>
   (buffer \<noteq> None \<and> 1 \<le> len \<and> file' rc \<noteq> None \<and> \<not> writable rc \<longrightarrow>
      janus_recorder_save_frame e (Some rc) buffer len = Some (-4, Some rc, buffer)) \<and>
   (buffer \<noteq> None \<and> 1 \<le> len \<and> file' rc \<noteq> None \<and> writable rc \<and> paused rc \<longrightarrow>
      janus_recorder_save_frame e (Some rc) buffer len = Some (-5, Some rc, buffer))"
  by (auto simp add: janus_recorder_save_frame_def not_less split: option.splits)

theorem save_frame_preconditions_witness:
  "janus_recorder_save_frame example_env
       (Some ((example_recorder JANUS_RECORDER_AUDIO ''opus'')\<lparr>writable := False, paused := True\<rparr>))
       None 13 =
     Some (-2, Some ((example_recorder JANUS_RECORDER_AUDIO ''opus'')
                       \<lparr>writable := False, paused := True\<rparr>), None) \<and>
   janus_recorder_save_frame example_env
       (Some ((example_recorder JANUS_RECORDER_AUDIO ''opus'')\<lparr>writable := False, paused := True\<rparr>))
       (Some example_packet) 0 =
     Some (-2, Some ((example_recorder JANUS_RECORDER_AUDIO ''opus'')
                       \<lparr>writable := False, paused := True\<rparr>), Some example_packet) \<and>
   janus_recorder_save_frame example_env
       (Some ((example_recorder JANUS_RECORDER_AUDIO ''opus'')\<lparr>file' := None\<rparr>))
       (Some example_packet) 13 =
     Some (-3, Some ((example_recorder JANUS_RECORDER_AUDIO ''opus'')\<lparr>file' := None\<rparr>),
           Some example_packet) \<and>
   janus_recorder_save_frame example_env
       (Some ((example_recorder JANUS_RECORDER_AUDIO ''opus'')\<lparr>writable := False, paused := True\<rparr>))
       (Some example_packet) 13 =
     Some (-4, Some ((example_recorder JANUS_RECORDER_AUDIO ''opus'')
                       \<lparr>writable := False, paused := True\<rparr>), Some example_packet) \<and>
   janus_recorder_save_frame example_env
       (Some ((example_recorder JANUS_RECORDER_AUDIO ''opus'')\<lparr>paused := True\<rparr>))
       (Some example_packet) 13 =
     Some (-5, Some ((example_recorder JANUS_RECORDER_AUDIO ''opus'')\<lparr>paused := True\<rparr>),
           Some example_packet)"
  using save_frame_preconditions[where buffer = None and len = 13 and e = example_env and
      rc = "(example_recorder JANUS_RECORDER_AUDIO ''opus'')\<lparr>writable := False, paused := True\<rparr>"]
    save_frame_preconditions[where buffer = "Some example_packet" and len = 0 and e = example_env and
      rc = "(example_recorder JANUS_RECORDER_AUDIO ''opus'')\<lparr>writable := False, paused := True\<rparr>"]
    save_frame_preconditions[where buffer = "Some example_packet" and len = 13 and e = example_env and
      rc = "(example_recorder JANUS_RECORDER_AUDIO ''opus'')\<lparr>file' := None\<rparr>"]
    save_frame_preconditions[where buffer = "Some example_packet" and len = 13 and e = example_env and
      rc = "(example_recorder JANUS_RECORDER_AUDIO ''opus'')\<lparr>writable := False, paused := True\<rparr>"]
    save_frame_preconditions[where buffer = "Some example_packet" and len = 13 and e = example_env and
      rc = "(example_recorder JANUS_RECORDER_AUDIO ''opus'')\<lparr>paused := True\<rparr>"]
  by (simp add: example_recorder_def)

text \<open>
  C9. With the buffer, the stream and the writable flag in order, a write to a paused
  recorder returns -5, and so does a write to a recorder that is not paused and has not
  written its info header when that header cannot be converted to text. Both leave the
  recorder and the buffer as they were.
\<close>

theorem paused_and_serialization_same_code:
  "buffer \<noteq> None \<and> 1 \<le> len \<and> file' rc \<noteq> None \<and> writable rc \<Longrightarrow>
     (paused rc \<longrightarrow>
        janus_recorder_save_frame e (Some rc) buffer len = Some (-5, Some rc, buffer)) \<and>
     (\<not> paused rc \<and> \<not> header rc \<and> json_dumps e (info_json e rc (janus_get_real_time e)) = None \<longrightarrow>
        janus_recorder_save_frame e (Some rc) buffer len = Some (-5, Some rc, buffer))"
  by (auto simp add: janus_recorder_save_frame_def save_info_header_def not_less
        split: option.splits)

theorem paused_and_serialization_same_code_witness:
  "janus_recorder_save_frame example_env
       (Some ((example_recorder JANUS_RECORDER_DATA ''text'')\<lparr>paused := True\<rparr>))
       (Some example_packet) 13 =
     Some (-5, Some ((example_recorder JANUS_RECORDER_DATA ''text'')\<lparr>paused := True\<rparr>),
           Some example_packet) \<and>
   janus_recorder_save_frame (example_env\<lparr>json_dumps := (\<lambda>j. None)\<rparr>)
       (Some (example_recorder JANUS_RECORDER_DATA ''text'')) (Some example_packet) 13 =
     Some (-5, Some (example_recorder JANUS_RECORDER_DATA ''text''), Some example_packet)"
  using paused_and_serialization_same_code[where buffer = "Some example_packet" and len = 13 and
      e = example_env and
      rc = "(example_recorder JANUS_RECORDER_DATA ''text'')\<lparr>paused := True\<rparr>"]
    paused_and_serialization_same_code[where buffer = "Some example_packet" and len = 13 and
      e = "example_env\<lparr>json_dumps := (\<lambda>j. None)\<rparr>" and
      rc = "example_recorder JANUS_RECORDER_DATA ''text''"]
  by (simp add: example_recorder_def)

subsection \<open>Writing a frame: the caller's buffer\<close>

text \<open>
  C3. Whenever the frame write returns, the caller's buffer is byte for byte what was
  passed in: on the paths that leave before the packet header is edited, on the path
  where a payload write takes nothing and the frame is given up (-6), and on the path
  that writes the whole frame (0), for audio, video and data alike. The write does
  return whenever the buffer holds the payload it is said to hold and, being at least 12
  bytes long, the packet header.
\<close>

theorem save_frame_restores_buffer:
  "(janus_recorder_save_frame e recorder buffer len = Some (r, recorder1, buffer1) \<longrightarrow>
      buffer1 = buffer) \<and>
   ((\<forall>buf. buffer = Some buf \<longrightarrow> 12 \<le> length buf \<and> unat len \<le> length buf) \<longrightarrow>
      janus_recorder_save_frame e recorder buffer len \<noteq> None)"
proof (intro conjI impI)
  assume "janus_recorder_save_frame e recorder buffer len = Some (r, recorder1, buffer1)"
  then show "buffer1 = buffer"
    by (auto simp add: janus_recorder_save_frame_def Let_def not_less
        dest: restore_edit_packet_header edit_packet_header_data
        split: option.splits if_splits prod.splits)
next
  assume "\<forall>buf. buffer = Some buf \<longrightarrow> 12 \<le> length buf \<and> unat len \<le> length buf"
  then show "janus_recorder_save_frame e recorder buffer len \<noteq> None"
    by (auto simp add: janus_recorder_save_frame_def Let_def
        dest: length_edit_packet_header
        split: option.splits if_splits prod.splits)
qed

theorem save_frame_restores_buffer_witness:
  "janus_recorder_save_frame (example_env\<lparr>fwrite_accepts := [2, 2, 4, 4, 2, 5, 0]\<rparr>)
       (Some (example_recorder JANUS_RECORDER_AUDIO ''opus'')) (Some example_packet) 13 =
     Some (-6,
           Some ((example_recorder JANUS_RECORDER_AUDIO ''opus'')
                   \<lparr>started := 1000000, header := True,
                    file' := Some [77, 74, 82, 48, 48, 48, 48, 50, 0, 2, 123, 125,
                                   77, 69, 69, 84, 0, 0, 0, 0, 0, 13, 128, 111, 0, 17, 0],
                    context' := \<lparr>ts_reset = False, seq_reset = False, last_time = 0,
                                 ctx_other = []\<rparr>\<rparr>),
           Some example_packet) \<and>
   janus_recorder_save_frame example_env
       (Some (example_recorder JANUS_RECORDER_AUDIO ''opus'')) (Some example_packet) 13 =
     Some (0,
           Some ((example_recorder JANUS_RECORDER_AUDIO ''opus'')
                   \<lparr>started := 1000000, header := True,
                    file' := Some [77, 74, 82, 48, 48, 48, 48, 50, 0, 2, 123, 125,
                                   77, 69, 69, 84, 0, 0, 0, 0, 0, 13, 128, 111, 0, 17, 0, 0, 0, 34,
                                   0, 0, 0, 51, 255],
                    context' := \<lparr>ts_reset = False, seq_reset = False, last_time = 0,
                                 ctx_other = []\<rparr>\<rparr>),
           Some example_packet)"
  using save_frame_restores_buffer[where e = "example_env\<lparr>fwrite_accepts := [2, 2, 4, 4, 2, 5, 0]\<rparr>"
      and recorder = "Some (example_recorder JANUS_RECORDER_AUDIO ''opus'')"
      and buffer = "Some example_packet" and len = 13]
    save_frame_restores_buffer[where e = example_env
      and recorder = "Some (example_recorder JANUS_RECORDER_AUDIO ''opus'')"
      and buffer = "Some example_packet" and len = 13]
  by (simp add: example_defs save_frame_defs)

subsection \<open>Close and destroy\<close>

lemma close_not_writable:
  "\<not> writable rc \<Longrightarrow> janus_recorder_close g e (Some rc) = Some (-1, Some rc, [])"
  by (simp add: janus_recorder_close_def g_atomic_int_compare_and_exchange_def)

text \<open>Whatever close returns, the recorder is still there, it is not writable, and but
  for the writable flag and the filename it is what it was.\<close>

lemma close_Some:
  assumes "janus_recorder_close g e (Some rc) = Some (r, recorder1, calls)"
  shows "\<exists>rc1. recorder1 = Some rc1 \<and> \<not> writable rc1 \<and>
           rc1\<lparr>writable := writable rc, filename := filename rc\<rparr> = rc \<and>
           (r = 0 \<longleftrightarrow> writable rc) \<and> (r = -1 \<longleftrightarrow> \<not> writable rc) \<and>
           (\<not> writable rc \<longrightarrow> calls = []) \<and> length calls \<le> 1"
proof (cases "writable rc")
  case False
  with assms show ?thesis by (auto simp add: close_not_writable)
next
  case True
  with assms show ?thesis
    by (auto simp add: janus_recorder_close_def g_atomic_int_compare_and_exchange_def Let_def
        split: option.splits if_splits prod.splits)
qed




lemma destroy_Some:
  assumes "janus_recorder_destroy g e (Some rc) = Some (Some rc1, calls)"
  shows "destroyed rc1 \<and> calls = [] \<and>
         rc1 = (if destroyed rc then rc else rc\<lparr>destroyed := True, ref := ref rc - 1\<rparr>)"
  using assms
  by (auto simp add: janus_recorder_destroy_def g_atomic_int_compare_and_exchange_def
      janus_refcount_decrease_def Let_def split: option.splits if_splits)


subsection \<open>Construction\<close>

lemma lower_codecs:
  "map tolower ''vp8'' = ''vp8''" "map tolower ''vp9'' = ''vp9''" "map tolower ''h264'' = ''h264''"
  "map tolower ''av1'' = ''av1''" "map tolower ''h265'' = ''h265''"
  "map tolower ''opus'' = ''opus''" "map tolower ''multiopus'' = ''multiopus''"
  "map tolower ''g711'' = ''g711''" "map tolower ''pcmu'' = ''pcmu''"
  "map tolower ''pcma'' = ''pcma''" "map tolower ''g722'' = ''g722''"
  "map tolower ''l16-48'' = ''l16-48''" "map tolower ''l16'' = ''l16''"
  "map tolower ''text'' = ''text''" "map tolower ''binary'' = ''binary''"
  by (simp_all add: tolower_def)

lemma codec_medium_eq:
  "codec_medium cdc =
     (if map tolower cdc \<in> {''vp8'', ''vp9'', ''h264'', ''av1'', ''h265''}
      then Some JANUS_RECORDER_VIDEO
      else if map tolower cdc \<in> {''opus'', ''multiopus'', ''g711'', ''pcmu'', ''pcma'', ''g722'',
                                    ''l16-48'', ''l16''}
      then Some JANUS_RECORDER_AUDIO
      else if map tolower cdc \<in> {''text'', ''binary''}
      then Some JANUS_RECORDER_DATA
      else None)"
  unfolding codec_medium_def strcasecmp_def lower_codecs
  by (simp only: insert_iff empty_iff if_distrib[of "\<lambda>x. x = 0"] simp_thms if_True if_False
       zero_neq_one one_neq_zero refl if_bool_eq_conj) 

lemma codec_sets_disjoint:
  "x \<in> {''vp8'', ''vp9'', ''h264'', ''av1'', ''h265''} \<Longrightarrow>
     x \<notin> {''opus'', ''multiopus'', ''g711'', ''pcmu'', ''pcma'', ''g722'', ''l16-48'', ''l16''} \<and>
     x \<notin> {''text'', ''binary''}"
  "x \<in> {''opus'', ''multiopus'', ''g711'', ''pcmu'', ''pcma'', ''g722'', ''l16-48'', ''l16''} \<Longrightarrow>
     x \<notin> {''text'', ''binary''}"
  by auto

lemma codec_medium_Some:
  assumes "codec_medium cdc = Some ty"
  shows "(ty = JANUS_RECORDER_VIDEO \<longleftrightarrow>
            map tolower cdc \<in> {''vp8'', ''vp9'', ''h264'', ''av1'', ''h265''}) \<and>
         (ty = JANUS_RECORDER_AUDIO \<longleftrightarrow>
            map tolower cdc \<in> {''opus'', ''multiopus'', ''g711'', ''pcmu'', ''pcma'', ''g722'',
                                 ''l16-48'', ''l16''}) \<and>
         (ty = JANUS_RECORDER_DATA \<longleftrightarrow> map tolower cdc \<in> {''text'', ''binary''})"
proof -
  let ?x = "map tolower cdc"
  let ?V = "{''vp8'', ''vp9'', ''h264'', ''av1'', ''h265''}"
  let ?A = "{''opus'', ''multiopus'', ''g711'', ''pcmu'', ''pcma'', ''g722'', ''l16-48'', ''l16''}"
  let ?D = "{''text'', ''binary''}"
  consider (v) "?x \<in> ?V" | (a) "?x \<notin> ?V" "?x \<in> ?A" | (d) "?x \<notin> ?V" "?x \<notin> ?A" "?x \<in> ?D"
    | (n) "?x \<notin> ?V" "?x \<notin> ?A" "?x \<notin> ?D"
    by blast
  then show ?thesis
  proof cases
    case v
    then have "ty = JANUS_RECORDER_VIDEO" using assms by (simp only: codec_medium_eq if_True option.inject)
    with v codec_sets_disjoint(1)[OF v] show ?thesis by simp
  next
    case a
    then have "ty = JANUS_RECORDER_AUDIO" using assms
      by (simp only: codec_medium_eq if_True if_False option.inject)
    with a codec_sets_disjoint(2)[OF a(2)] show ?thesis by simp
  next
    case d
    then have "ty = JANUS_RECORDER_DATA" using assms
      by (simp only: codec_medium_eq if_True if_False option.inject)
    with d show ?thesis by simp
  next
    case n
    then have False using assms
      by (simp only: codec_medium_eq if_True if_False option.distinct)
    then show ?thesis ..
  qed
qed

lemma create_failed_no_recorder: "create_failed g e rc calls \<noteq> Some (Some rc1, calls1)"
  by (simp add: create_failed_def split: option.splits)

lemma fwrite_header_mjr:
  "fwrite (bytes_of header_mjr) 1 (length header_mjr) [] acc = (res, f, acc1) \<Longrightarrow>
     res = length header_mjr \<Longrightarrow> f = bytes_of header_mjr"
  by (auto simp add: fwrite_def bytes_of_def header_mjr_def Let_def split: list.splits)

lemma create_full_Some:
  assumes "janus_recorder_create_full g e dir_arg codec_arg fmtp_arg filename_arg = Some (Some rc, calls)"
  shows "\<exists>cdc ty. codec_arg = Some cdc \<and> codec_medium cdc = Some ty \<and> codec rc = cdc \<and>
           type rc = ty \<and> file' rc = Some (bytes_of header_mjr) \<and> writable rc \<and> \<not> header rc \<and>
           \<not> paused rc \<and> \<not> destroyed rc \<and> ref rc = 1"
proof -
  from assms obtain cdc where c: "codec_arg = Some cdc"
    by (cases codec_arg) (simp_all add: janus_recorder_create_full_def)
  with assms obtain ty where t: "codec_medium cdc = Some ty"
    by (cases "codec_medium cdc") (simp_all add: janus_recorder_create_full_def)
  obtain res f acc1 where w: "fwrite (bytes_of header_mjr) 1 (length header_mjr) [] (fwrite_accepts e) = (res, f, acc1)"
    by (metis prod_cases3)
  from assms t have "res = length header_mjr \<and> codec rc = cdc \<and> type rc = ty \<and>
      file' rc = Some f \<and> writable rc \<and> \<not> header rc \<and> \<not> paused rc \<and> \<not> destroyed rc \<and> ref rc = 1"
    unfolding janus_recorder_create_full_def c w Let_def
    by (auto simp add: create_failed_no_recorder
        split: option.splits if_splits prod.splits stat_result.splits)
  with fwrite_header_mjr[OF w] c t show ?thesis by simp
qed


lemma codec_medium_None:
  "map tolower cdc \<notin> {''vp8'', ''vp9'', ''h264'', ''av1'', ''h265''} \<Longrightarrow>
   map tolower cdc \<notin> {''opus'', ''multiopus'', ''g711'', ''pcmu'', ''pcma'', ''g722'', ''l16-48'', ''l16''} \<Longrightarrow>
   map tolower cdc \<notin> {''text'', ''binary''} \<Longrightarrow>
     codec_medium cdc = None"
  unfolding codec_medium_eq by (simp only: if_False)

lemma codec_medium_known:
  assumes "map tolower cdc \<in> {''vp8'', ''vp9'', ''h264'', ''av1'', ''h265''} \<or>
   map tolower cdc \<in> {''opus'', ''multiopus'', ''g711'', ''pcmu'', ''pcma'', ''g722'', ''l16-48'', ''l16''} \<or>
   map tolower cdc \<in> {''text'', ''binary''}"
  shows "\<exists>ty. codec_medium cdc = Some ty"
proof (cases "map tolower cdc \<in> {''vp8'', ''vp9'', ''h264'', ''av1'', ''h265''}")
  case True
  then have "codec_medium cdc = Some JANUS_RECORDER_VIDEO"
    by (simp only: codec_medium_eq if_True)
  then show ?thesis by (rule exI)
next
  case v: False
  show ?thesis
  proof (cases "map tolower cdc \<in> {''opus'', ''multiopus'', ''g711'', ''pcmu'', ''pcma'', ''g722'',
      ''l16-48'', ''l16''}")
    case True
    with v have "codec_medium cdc = Some JANUS_RECORDER_AUDIO"
      by (simp only: codec_medium_eq if_True if_False)
    then show ?thesis by (rule exI)
  next
    case a: False
    from assms v a have "map tolower cdc \<in> {''text'', ''binary''}" by (simp only: simp_thms)
    with v a have "codec_medium cdc = Some JANUS_RECORDER_DATA"
      by (simp only: codec_medium_eq if_True if_False)
    then show ?thesis by (rule exI)
  qed
qed

lemma create_full_ok:
  assumes "codec_medium cdc = Some ty" "\<not> rec_tempname g" "\<forall>p. stat e p = STAT_ISDIR"
    "\<forall>p. \<not> janus_is_folder_protected e p" "\<forall>p. fopen e p" "fwrite_accepts e = []"
  shows "\<exists>rc calls. janus_recorder_create_full g e dir_arg (Some cdc) fmtp_arg filename_arg =
           Some (Some rc, calls)"
  using assms
  by (simp add: janus_recorder_create_full_def Let_def fwrite_all bytes_of_def header_mjr_def
      split: option.splits prod.splits)

text \<open>
  C5. Construction compares the codec name without regard to case with the video names
  (vp8, vp9, h264, av1, h265), the audio names (opus, multiopus, g711, pcmu, pcma, g722,
  l16-48, l16) and the data names (text, binary). A recorder it returns has the medium
  of the set its codec name is in. With no codec name, or a name in none of the sets,
  it returns no recorder and makes no call on the file system: no directory and no file
  is created. For a name in one of the sets it does return a recorder when the
  directory is there, the path is not protected, the file opens and the stream takes
  the magic header.
\<close>

theorem create_codec_medium:
  "(codec_arg = None \<longrightarrow>
      janus_recorder_create_full g e dir_arg codec_arg fmtp_arg filename_arg = Some (None, [])) \<and>
   (codec_arg = Some cdc \<and>
    map tolower cdc \<notin> {''vp8'', ''vp9'', ''h264'', ''av1'', ''h265''} \<and>
    map tolower cdc \<notin> {''opus'', ''multiopus'', ''g711'', ''pcmu'', ''pcma'', ''g722'', ''l16-48'', ''l16''} \<and>
    map tolower cdc \<notin> {''text'', ''binary''} \<longrightarrow>
      janus_recorder_create_full g e dir_arg codec_arg fmtp_arg filename_arg = Some (None, [])) \<and>
   (janus_recorder_create_full g e dir_arg codec_arg fmtp_arg filename_arg = Some (Some rc, calls) \<longrightarrow>
      codec_arg = Some (codec rc) \<and>
      (type rc = JANUS_RECORDER_VIDEO \<longleftrightarrow>
         map tolower (codec rc) \<in> {''vp8'', ''vp9'', ''h264'', ''av1'', ''h265''}) \<and>
      (type rc = JANUS_RECORDER_AUDIO \<longleftrightarrow>
         map tolower (codec rc) \<in> {''opus'', ''multiopus'', ''g711'', ''pcmu'', ''pcma'', ''g722'',
                                      ''l16-48'', ''l16''}) \<and>
      (type rc = JANUS_RECORDER_DATA \<longleftrightarrow> map tolower (codec rc) \<in> {''text'', ''binary''})) \<and>
   (codec_arg = Some cdc \<and>
    (map tolower cdc \<in> {''vp8'', ''vp9'', ''h264'', ''av1'', ''h265''} \<or>
     map tolower cdc \<in> {''opus'', ''multiopus'', ''g711'', ''pcmu'', ''pcma'', ''g722'', ''l16-48'', ''l16''} \<or>
     map tolower cdc \<in> {''text'', ''binary''}) \<and>
    \<not> rec_tempname g \<and> (\<forall>p. stat e p = STAT_ISDIR) \<and> (\<forall>p. \<not> janus_is_folder_protected e p) \<and>
    (\<forall>p. fopen e p) \<and> fwrite_accepts e = [] \<longrightarrow>
      (\<exists>rc' calls'. janus_recorder_create_full g e dir_arg codec_arg fmtp_arg filename_arg =
          Some (Some rc', calls')))"
proof (intro conjI impI)
  assume "codec_arg = None"
  then show "janus_recorder_create_full g e dir_arg codec_arg fmtp_arg filename_arg = Some (None, [])"
    by (simp add: janus_recorder_create_full_def)
next
  assume a: "codec_arg = Some cdc \<and>
    map tolower cdc \<notin> {''vp8'', ''vp9'', ''h264'', ''av1'', ''h265''} \<and>
    map tolower cdc \<notin> {''opus'', ''multiopus'', ''g711'', ''pcmu'', ''pcma'', ''g722'', ''l16-48'', ''l16''} \<and>
    map tolower cdc \<notin> {''text'', ''binary''}"
  then have "codec_medium cdc = None"
    by (intro codec_medium_None) (rule a[THEN conjunct2, THEN conjunct1],
        rule a[THEN conjunct2, THEN conjunct2, THEN conjunct1],
        rule a[THEN conjunct2, THEN conjunct2, THEN conjunct2])
  with a[THEN conjunct1]
  show "janus_recorder_create_full g e dir_arg codec_arg fmtp_arg filename_arg = Some (None, [])"
    by (simp add: janus_recorder_create_full_def)
next
  assume a: "janus_recorder_create_full g e dir_arg codec_arg fmtp_arg filename_arg = Some (Some rc, calls)"
  from create_full_Some[OF a] obtain ty where
    c: "codec_arg = Some (codec rc)" and m: "codec_medium (codec rc) = Some ty" and t: "type rc = ty"
    by blast
  note cm = codec_medium_Some[OF m, folded t]
  show "codec_arg = Some (codec rc)" by (rule c)
  show "type rc = JANUS_RECORDER_VIDEO \<longleftrightarrow>
         map tolower (codec rc) \<in> {''vp8'', ''vp9'', ''h264'', ''av1'', ''h265''}"
    by (rule cm[THEN conjunct1])
  show "type rc = JANUS_RECORDER_AUDIO \<longleftrightarrow>
         map tolower (codec rc) \<in> {''opus'', ''multiopus'', ''g711'', ''pcmu'', ''pcma'', ''g722'',
                                      ''l16-48'', ''l16''}"
    by (rule cm[THEN conjunct2, THEN conjunct1])
  show "type rc = JANUS_RECORDER_DATA \<longleftrightarrow> map tolower (codec rc) \<in> {''text'', ''binary''}"
    by (rule cm[THEN conjunct2, THEN conjunct2])
next
  assume a: "codec_arg = Some cdc \<and>
    (map tolower cdc \<in> {''vp8'', ''vp9'', ''h264'', ''av1'', ''h265''} \<or>
     map tolower cdc \<in> {''opus'', ''multiopus'', ''g711'', ''pcmu'', ''pcma'', ''g722'', ''l16-48'', ''l16''} \<or>
     map tolower cdc \<in> {''text'', ''binary''}) \<and>
    \<not> rec_tempname g \<and> (\<forall>p. stat e p = STAT_ISDIR) \<and> (\<forall>p. \<not> janus_is_folder_protected e p) \<and>
    (\<forall>p. fopen e p) \<and> fwrite_accepts e = []"
  from codec_medium_known[OF a[THEN conjunct2, THEN conjunct1]]
  obtain ty where m: "codec_medium cdc = Some ty" ..
  have "\<exists>rc' calls'. janus_recorder_create_full g e dir_arg (Some cdc) fmtp_arg filename_arg =
          Some (Some rc', calls')"
    by (rule create_full_ok[OF m]) (use a in simp_all)
  with a[THEN conjunct1]
  show "\<exists>rc' calls'. janus_recorder_create_full g e dir_arg codec_arg fmtp_arg filename_arg =
          Some (Some rc', calls')"
    by simp
qed

theorem create_codec_medium_witness:
  "janus_recorder_create_full \<lparr>rec_tempname = False, rec_tempext = None\<rparr> example_env
       (Some ''/tmp/r'') (Some ''Opus'') None (Some ''s1'') =
     Some (Some ((example_recorder JANUS_RECORDER_AUDIO ''Opus'')\<lparr>dir := Some ''/tmp/r''\<rparr>),
           [FOPEN ''/tmp/r/s1.mjr'']) \<and>
   janus_recorder_create_full \<lparr>rec_tempname = False, rec_tempext = None\<rparr> example_env
       (Some ''/tmp/r'') (Some ''VP8'') None (Some ''s1'') =
     Some (Some ((example_recorder JANUS_RECORDER_VIDEO ''VP8'')\<lparr>dir := Some ''/tmp/r''\<rparr>),
           [FOPEN ''/tmp/r/s1.mjr'']) \<and>
   janus_recorder_create_full \<lparr>rec_tempname = False, rec_tempext = None\<rparr> example_env
       (Some ''/tmp/r'') (Some ''Binary'') None (Some ''s1'') =
     Some (Some ((example_recorder JANUS_RECORDER_DATA ''Binary'')\<lparr>dir := Some ''/tmp/r''\<rparr>),
           [FOPEN ''/tmp/r/s1.mjr'']) \<and>
   janus_recorder_create_full \<lparr>rec_tempname = False, rec_tempext = None\<rparr> example_env
       (Some ''/tmp/r'') (Some ''mp3'') None (Some ''s1'') = Some (None, []) \<and>
   janus_recorder_create_full \<lparr>rec_tempname = False, rec_tempext = None\<rparr> example_env
       (Some ''/tmp/r'') None None (Some ''s1'') = Some (None, [])"
proof -
  have lower: "map tolower ''Opus'' = ''opus''" "map tolower ''VP8'' = ''vp8''"
    "map tolower ''Binary'' = ''binary''" "map tolower ''mp3'' = ''mp3''"
    by (simp_all add: tolower_def)
  have medium: "codec_medium ''Opus'' = Some JANUS_RECORDER_AUDIO"
    "codec_medium ''VP8'' = Some JANUS_RECORDER_VIDEO"
    "codec_medium ''Binary'' = Some JANUS_RECORDER_DATA"
    by (simp_all add: codec_medium_eq tolower_def)
  have a: "janus_recorder_create_full \<lparr>rec_tempname = False, rec_tempext = None\<rparr> example_env
       (Some ''/tmp/r'') (Some ''Opus'') None (Some ''s1'') =
     Some (Some ((example_recorder JANUS_RECORDER_AUDIO ''Opus'')\<lparr>dir := Some ''/tmp/r''\<rparr>),
           [FOPEN ''/tmp/r/s1.mjr''])"
    by (simp add: janus_recorder_create_full_def medium example_defs g_snprintf_def fwrite_def
        bytes_of_def header_mjr_def Let_def)
  have b: "janus_recorder_create_full \<lparr>rec_tempname = False, rec_tempext = None\<rparr> example_env
       (Some ''/tmp/r'') (Some ''VP8'') None (Some ''s1'') =
     Some (Some ((example_recorder JANUS_RECORDER_VIDEO ''VP8'')\<lparr>dir := Some ''/tmp/r''\<rparr>),
           [FOPEN ''/tmp/r/s1.mjr''])"
    by (simp add: janus_recorder_create_full_def medium example_defs g_snprintf_def fwrite_def
        bytes_of_def header_mjr_def Let_def)
  have c: "janus_recorder_create_full \<lparr>rec_tempname = False, rec_tempext = None\<rparr> example_env
       (Some ''/tmp/r'') (Some ''Binary'') None (Some ''s1'') =
     Some (Some ((example_recorder JANUS_RECORDER_DATA ''Binary'')\<lparr>dir := Some ''/tmp/r''\<rparr>),
           [FOPEN ''/tmp/r/s1.mjr''])"
    by (simp add: janus_recorder_create_full_def medium example_defs g_snprintf_def fwrite_def
        bytes_of_def header_mjr_def Let_def)
  have d: "janus_recorder_create_full \<lparr>rec_tempname = False, rec_tempext = None\<rparr> example_env
       (Some ''/tmp/r'') (Some ''mp3'') None (Some ''s1'') = Some (None, [])"
    using create_codec_medium[where g = "\<lparr>rec_tempname = False, rec_tempext = None\<rparr>" and
      e = example_env and dir_arg = "Some ''/tmp/r''" and codec_arg = "Some ''mp3''" and
      cdc = "''mp3''" and fmtp_arg = None and filename_arg = "Some ''s1''"]
    by (simp add: tolower_def)
  have e: "janus_recorder_create_full \<lparr>rec_tempname = False, rec_tempext = None\<rparr> example_env
       (Some ''/tmp/r'') None None (Some ''s1'') = Some (None, [])"
    using create_codec_medium[where g = "\<lparr>rec_tempname = False, rec_tempext = None\<rparr>" and
      e = example_env and dir_arg = "Some ''/tmp/r''" and codec_arg = None and
      fmtp_arg = None and filename_arg = "Some ''s1''"]
    by simp
  show ?thesis by (intro conjI a b c d e)
qed


subsection \<open>Closing a constructed recorder\<close>





subsection \<open>Writing a frame: what reaches the stream\<close>

lemma length_bytes_of: "length (bytes_of s) = length s"
  by (simp add: bytes_of_def)

lemma length_hton [simp]: "length (htons w) = 2" "length (htonl v) = 4" "length (htonll u) = 8"
  by (simp_all add: htons_def htonl_def htonll_def)

lemma edit_packet_header_cong:
  "type rc' = type rc \<Longrightarrow> context' rc' = context' rc \<Longrightarrow>
     edit_packet_header e rc' buf = edit_packet_header e rc buf"
  by (simp add: edit_packet_header_def)

lemma save_frame_header_all:
  "save_frame_header e now rc len f [] =
     (f @ bytes_of frame_header
        @ htonl (word_of_int (if now > started rc then (now - started rc) div 1000 else 0))
        @ htons (if type rc = JANUS_RECORDER_DATA then word_of_nat (unat len + 8) else ucast len)
        @ (if type rc = JANUS_RECORDER_DATA
           then htonll (word_of_int (janus_get_real_time_data e)) else []), [])"
  by (simp add: save_frame_header_def fwrite_all length_bytes_of Let_def)

lemma save_info_header_all:
  "json_dumps e (info_json e rc (janus_get_real_time e)) = Some info_text \<Longrightarrow>
     save_info_header e now rc f [] =
       Some (rc\<lparr>started := now, header := True\<rparr>,
             f @ htons (word_of_nat (length info_text)) @ bytes_of info_text, [])"
  by (simp add: save_info_header_def fwrite_all length_bytes_of Let_def)

lemma save_packet_payload:
  assumes "0 < sint len \<longrightarrow> unat len \<le> length buf"
  shows "save_packet buf (unat len) (sint len) f [] = (True, f @ take (nat (sint len)) buf, [])"
proof (cases "0 < sint len")
  case True
  then have n: "nat (sint len) = unat len" by (rule sint_pos_unat)
  with True assms have "nat (sint len) \<le> length (drop (unat len - nat (sint len)) buf)" by simp
  from save_packet_all[OF this] n show ?thesis by simp
next
  case False
  then show ?thesis by (subst save_packet.simps) simp
qed

text \<open>A write that passes the checks, with every \<open>fwrite\<close> taking all it is given.\<close>

lemma save_frame_written:
  assumes "file' rc = Some f" "writable rc" "\<not> paused rc" "1 \<le> len" "header rc"
    and "fwrite_accepts e = []"
    and "type rc \<noteq> JANUS_RECORDER_DATA \<longrightarrow> 12 \<le> length buf"
    and "0 < sint len \<longrightarrow> unat len \<le> length buf"
  shows "janus_recorder_save_frame e (Some rc) (Some buf) len =
     Some (0,
       Some (rc\<lparr>file' := Some (f @ bytes_of frame_header
           @ htonl (word_of_int (if janus_get_monotonic_time e > started rc
                                 then (janus_get_monotonic_time e - started rc) div 1000 else 0))
           @ htons (if type rc = JANUS_RECORDER_DATA then word_of_nat (unat len + 8) else ucast len)
           @ (if type rc = JANUS_RECORDER_DATA
              then htonll (word_of_int (janus_get_real_time_data e)) else [])
           @ take (nat (sint len)) (fst (edit_packet_header e rc buf))),
         context' := snd (edit_packet_header e rc buf)\<rparr>),
       Some buf)"
proof -
  obtain buf1 ctx1 where ed: "edit_packet_header e rc buf = (buf1, ctx1)" by (cases "edit_packet_header e rc buf")
  have len1: "length buf1 = length buf"
  proof (cases "type rc = JANUS_RECORDER_DATA")
    case True
    with edit_packet_header_data[OF ed] show ?thesis by simp
  next
    case False
    with assms(7) length_edit_packet_header[OF ed] show ?thesis by simp
  qed
  have sp: "save_packet b (unat len) (sint len) f' [] = (True, f' @ take (nat (sint len)) b, [])"
    if "length b = length buf" for b f'
    by (rule save_packet_payload) (use assms(8) that in simp)
  have rs: "type rc \<noteq> JANUS_RECORDER_DATA \<Longrightarrow>
      set_timestamp (get_timestamp buf) (set_seq_number (get_seq_number buf)
        (set_ssrc (get_ssrc buf) buf1)) = buf"
    using restore_edit_packet_header[OF ed] assms(7) by simp
  have dt: "type rc = JANUS_RECORDER_DATA \<Longrightarrow> buf1 = buf"
    using edit_packet_header_data[OF ed] by simp
  have nz: "len \<noteq> 0" using assms(4) by (auto simp add: word_le_nat_alt)
  from assms(1-3,5,6) nz len1 assms(7,8) show ?thesis
    by (auto simp add: janus_recorder_save_frame_def save_frame_header_all ed sp rs dt not_less Let_def)
qed


lemma save_frame_first:
  assumes "file' rc = Some f" "writable rc" "\<not> paused rc" "1 \<le> len" "\<not> header rc"
    and "json_dumps e (info_json e rc (janus_get_real_time e)) = Some info_text"
    and "fwrite_accepts e = []"
    and "type rc \<noteq> JANUS_RECORDER_DATA \<longrightarrow> 12 \<le> length buf"
    and "0 < sint len \<longrightarrow> unat len \<le> length buf"
  shows "janus_recorder_save_frame e (Some rc) (Some buf) len =
     Some (0,
       Some (rc\<lparr>started := janus_get_monotonic_time e, header := True,
         file' := Some (f @ htons (word_of_nat (length info_text)) @ bytes_of info_text
           @ bytes_of frame_header @ htonl 0
           @ htons (if type rc = JANUS_RECORDER_DATA then word_of_nat (unat len + 8) else ucast len)
           @ (if type rc = JANUS_RECORDER_DATA
              then htonll (word_of_int (janus_get_real_time_data e)) else [])
           @ take (nat (sint len)) (fst (edit_packet_header e rc buf))),
         context' := snd (edit_packet_header e rc buf)\<rparr>),
       Some buf)"
proof -
  obtain buf1 ctx1 where ed: "edit_packet_header e rc buf = (buf1, ctx1)"
    by (cases "edit_packet_header e rc buf")
  have ed': "edit_packet_header e (rc\<lparr>started := janus_get_monotonic_time e, header := True\<rparr>) buf
               = (buf1, ctx1)"
    using ed
      edit_packet_header_cong[of "rc\<lparr>started := janus_get_monotonic_time e, header := True\<rparr>" rc e buf]
    by simp
  have len1: "length buf1 = length buf"
  proof (cases "type rc = JANUS_RECORDER_DATA")
    case True
    with edit_packet_header_data[OF ed] show ?thesis by simp
  next
    case False
    with assms(8) length_edit_packet_header[OF ed] show ?thesis by simp
  qed
  have sp: "save_packet b (unat len) (sint len) f' [] = (True, f' @ take (nat (sint len)) b, [])"
    if "length b = length buf" for b f'
    by (rule save_packet_payload) (use assms(9) that in simp)
  have rs: "type rc \<noteq> JANUS_RECORDER_DATA \<Longrightarrow>
      set_timestamp (get_timestamp buf) (set_seq_number (get_seq_number buf)
        (set_ssrc (get_ssrc buf) buf1)) = buf"
    using restore_edit_packet_header[OF ed] assms(8) by simp
  have dt: "type rc = JANUS_RECORDER_DATA \<Longrightarrow> buf1 = buf"
    using edit_packet_header_data[OF ed] by simp
  have nz: "len \<noteq> 0" using assms(4) by (auto simp add: word_le_nat_alt)
  from assms(1-3,5-7) nz len1 assms(8,9) show ?thesis
    by (auto simp add: janus_recorder_save_frame_def save_info_header_all save_frame_header_all
        ed ed' sp rs dt not_less Let_def)
qed

lemma save_info_header_Some:
  assumes "save_info_header e now rc f acc = Some (rc1, f1, acc1)"
  shows "(\<exists>info_text. json_dumps e (info_json e rc (janus_get_real_time e)) = Some info_text) \<and>
         rc1 = rc\<lparr>started := now, header := True\<rparr>"
  using assms
  by (auto simp add: save_info_header_def Let_def split: option.splits prod.splits)

text \<open>The write after its checks, stage by stage.\<close>

lemma save_frame_stages:
  assumes "file' rc = Some f" "writable rc" "\<not> paused rc" "len \<noteq> 0"
    and "(if \<not> header rc
          then save_info_header e (janus_get_monotonic_time e) rc f (fwrite_accepts e)
          else Some (rc, f, fwrite_accepts e)) = Some (rc1, f1, acc1)"
    and "save_frame_header e (janus_get_monotonic_time e) rc1 len f1 acc1 = (f2, acc2)"
    and "edit_packet_header e rc1 buf = (buf1, ctx1)"
    and "save_packet buf1 (unat len) (sint len) f2 acc2 = (ok, f3, acc3)"
  shows "janus_recorder_save_frame e (Some rc) (Some buf) len =
     (if type rc1 \<noteq> JANUS_RECORDER_DATA \<and> length buf < 12 then None
      else if 0 < sint len \<and> length buf1 < unat len then None
      else Some (if ok then 0 else -6,
                 Some (rc1\<lparr>file' := Some f3, context' := ctx1\<rparr>),
                 Some (if type rc1 \<noteq> JANUS_RECORDER_DATA
                       then set_timestamp (get_timestamp buf) (set_seq_number (get_seq_number buf)
                              (set_ssrc (get_ssrc buf) buf1))
                       else buf1)))"
  using assms by (simp add: janus_recorder_save_frame_def Let_def)

text \<open>What a write that got past the checks and the conversion of the info header
  says about the call: the checks held, and the buffer held the packet header and the
  payload.\<close>

lemma save_frame_accepted:
  assumes "janus_recorder_save_frame e (Some rc) buffer len = Some (r, recorder', buffer')"
    and "r = 0 \<or> r = -6"
  shows "\<exists>buf f. buffer = Some buf \<and> 1 \<le> len \<and> file' rc = Some f \<and> writable rc \<and> \<not> paused rc \<and>
           (type rc \<noteq> JANUS_RECORDER_DATA \<longrightarrow> 12 \<le> length buf) \<and>
           (0 < sint len \<longrightarrow> unat len \<le> length buf) \<and>
           (header rc \<or> (\<exists>info_text. json_dumps e (info_json e rc (janus_get_real_time e)) = Some info_text))"
proof -
  from assms obtain buf where b: "buffer = Some buf"
    by (cases buffer) (auto simp add: janus_recorder_save_frame_def)
  from assms b have nz: "len \<noteq> 0"
    by (auto simp add: janus_recorder_save_frame_def)
  then have l: "1 \<le> len" by (auto simp add: word_le_nat_alt unat_gt_0 Suc_le_eq)
  from assms b nz obtain f where f: "file' rc = Some f"
    by (cases "file' rc") (auto simp add: janus_recorder_save_frame_def)
  from assms b nz f have w: "writable rc" "\<not> paused rc"
    by (auto simp add: janus_recorder_save_frame_def split: if_splits)
  have j: "header rc \<or> (\<exists>info_text. json_dumps e (info_json e rc (janus_get_real_time e)) = Some info_text)"
  proof (cases "header rc")
    case False
    with assms b nz f w obtain rc1 f1 acc1 where
      "save_info_header e (janus_get_monotonic_time e) rc f (fwrite_accepts e) = Some (rc1, f1, acc1)"
      by (cases "save_info_header e (janus_get_monotonic_time e) rc f (fwrite_accepts e)")
         (auto simp add: janus_recorder_save_frame_def Let_def)
    from save_info_header_Some[OF this] show ?thesis by blast
  qed simp
  define rc1 where "rc1 = (if header rc then rc
     else rc\<lparr>started := janus_get_monotonic_time e, header := True\<rparr>)"
  have "\<exists>f1 acc1. (if \<not> header rc
          then save_info_header e (janus_get_monotonic_time e) rc f (fwrite_accepts e)
          else Some (rc, f, fwrite_accepts e)) = Some (rc1, f1, acc1)"
  proof (cases "header rc")
    case True
    then show ?thesis by (simp add: rc1_def)
  next
    case False
    with j obtain info_text where
      "json_dumps e (info_json e rc (janus_get_real_time e)) = Some info_text"
      by blast
    with False show ?thesis
      by (auto simp add: rc1_def save_info_header_def Let_def split: prod.splits)
  qed
  then obtain f1 acc1 where i: "(if \<not> header rc
          then save_info_header e (janus_get_monotonic_time e) rc f (fwrite_accepts e)
          else Some (rc, f, fwrite_accepts e)) = Some (rc1, f1, acc1)"
    by blast
  have ty: "type rc1 = type rc" by (simp add: rc1_def)
  obtain f2 acc2 where fh: "save_frame_header e (janus_get_monotonic_time e) rc1 len f1 acc1 = (f2, acc2)"
    by (cases "save_frame_header e (janus_get_monotonic_time e) rc1 len f1 acc1")
  obtain buf1 ctx1 where ed: "edit_packet_header e rc1 buf = (buf1, ctx1)"
    by (cases "edit_packet_header e rc1 buf")
  obtain ok f3 acc3 where sp: "save_packet buf1 (unat len) (sint len) f2 acc2 = (ok, f3, acc3)"
    by (cases "save_packet buf1 (unat len) (sint len) f2 acc2")
  note st = save_frame_stages[OF f w nz i fh ed sp]
  from assms(1) b st have h: "type rc \<noteq> JANUS_RECORDER_DATA \<longrightarrow> 12 \<le> length buf"
    by (auto simp add: ty split: if_splits)
  have len1: "length buf1 = length buf"
  proof (cases "type rc = JANUS_RECORDER_DATA")
    case True
    with edit_packet_header_data[OF ed] ty show ?thesis by simp
  next
    case False
    with h length_edit_packet_header[OF ed] show ?thesis by simp
  qed
  from assms(1) b st have p: "0 < sint len \<longrightarrow> unat len \<le> length buf"
    by (auto simp add: len1 split: if_splits)
  from b l f w h p j show ?thesis by blast
qed


text \<open>What a write does to the header flag and the start instant.\<close>

lemma save_frame_flags:
  assumes "janus_recorder_save_frame e (Some rc) buffer len = Some (r, recorder', buffer')"
  shows "(r = 0 \<or> r = -6 \<longrightarrow>
           (\<exists>rc'. recorder' = Some rc' \<and> header rc' \<and>
              started rc' = (if header rc then started rc else janus_get_monotonic_time e))) \<and>
         (r \<noteq> 0 \<and> r \<noteq> -6 \<longrightarrow> recorder' = Some rc)"
proof (cases "r = 0 \<or> r = -6")
  case False
  with assms show ?thesis
    by (auto simp add: janus_recorder_save_frame_def Let_def
        split: option.splits if_splits prod.splits)
next
  case True
  from save_frame_accepted[OF assms True] obtain buf f where
    b: "buffer = Some buf" and l: "1 \<le> len" and f: "file' rc = Some f" and
    w: "writable rc" "\<not> paused rc" and
    j: "header rc \<or> (\<exists>info_text. json_dumps e (info_json e rc (janus_get_real_time e)) = Some info_text)"
    by blast
  have nz: "len \<noteq> 0" using l by (auto simp add: word_le_nat_alt)
  define rc1 where "rc1 = (if header rc then rc
     else rc\<lparr>started := janus_get_monotonic_time e, header := True\<rparr>)"
  have "\<exists>f1 acc1. (if \<not> header rc
          then save_info_header e (janus_get_monotonic_time e) rc f (fwrite_accepts e)
          else Some (rc, f, fwrite_accepts e)) = Some (rc1, f1, acc1)"
  proof (cases "header rc")
    case True
    then show ?thesis by (simp add: rc1_def)
  next
    case False
    with j obtain info_text where
      "json_dumps e (info_json e rc (janus_get_real_time e)) = Some info_text"
      by blast
    with False show ?thesis
      by (auto simp add: rc1_def save_info_header_def Let_def split: prod.splits)
  qed
  then obtain f1 acc1 where i: "(if \<not> header rc
          then save_info_header e (janus_get_monotonic_time e) rc f (fwrite_accepts e)
          else Some (rc, f, fwrite_accepts e)) = Some (rc1, f1, acc1)"
    by blast
  obtain f2 acc2 where fh: "save_frame_header e (janus_get_monotonic_time e) rc1 len f1 acc1 = (f2, acc2)"
    by (cases "save_frame_header e (janus_get_monotonic_time e) rc1 len f1 acc1")
  obtain buf1 ctx1 where ed: "edit_packet_header e rc1 buf = (buf1, ctx1)"
    by (cases "edit_packet_header e rc1 buf")
  obtain ok f3 acc3 where sp: "save_packet buf1 (unat len) (sint len) f2 acc2 = (ok, f3, acc3)"
    by (cases "save_packet buf1 (unat len) (sint len) f2 acc2")
  note st = save_frame_stages[OF f w nz i fh ed sp]
  from assms b st have "recorder' = Some (rc1\<lparr>file' := Some f3, context' := ctx1\<rparr>)"
    by (auto split: if_splits)
  with True show ?thesis by (auto simp add: rc1_def)
qed

lemma save_frame_keeps_header:
  assumes "header rc" "janus_recorder_save_frame e (Some rc) buffer len = Some (r, recorder', buffer')"
  shows "\<exists>rc'. recorder' = Some rc' \<and> header rc' \<and> started rc' = started rc"
  using save_frame_flags[OF assms(2)] assms(1) by (cases "r = 0 \<or> r = -6") auto

text \<open>No call clears the header flag or moves the start instant once the flag is set.\<close>

lemma step_keeps_header:
  assumes "header rc" "step rc c = Some rc'"
  shows "header rc' \<and> started rc' = started rc"
proof (cases c)
  case PAUSE
  with assms show ?thesis
    by (auto simp add: janus_recorder_pause_def g_atomic_int_compare_and_exchange_def split: if_splits)
next
  case (RESUME e)
  with assms show ?thesis
    by (auto simp add: janus_recorder_resume_def g_atomic_int_compare_and_exchange_def Let_def
        split: if_splits)
next
  case (ADD_EXTMAP i x)
  with assms show ?thesis
    by (auto simp add: janus_recorder_add_extmap_def split: if_splits option.splits)
next
  case (DESCRIPTION d)
  with assms show ?thesis
    by (auto simp add: janus_recorder_description_def split: if_splits option.splits)
next
  case (OPUSRED p)
  with assms show ?thesis by (auto simp add: janus_recorder_opusred_def split: if_splits)
next
  case ENCRYPTED
  with assms show ?thesis by (auto simp add: janus_recorder_encrypted_def split: if_splits)
next
  case (SAVE_FRAME e b l)
  with assms obtain r b' where
    "janus_recorder_save_frame e (Some rc) b l = Some (r, Some rc', b')"
    by (auto split: option.splits)
  from save_frame_keeps_header[OF assms(1) this] show ?thesis by simp
next
  case (CLOSE g e)
  with assms obtain r calls where
    "janus_recorder_close g e (Some rc) = Some (r, Some rc', calls)"
    by (auto split: option.splits)
  from close_Some[OF this] have "rc'\<lparr>writable := writable rc, filename := filename rc\<rparr> = rc"
    by simp
  then have "header (rc'\<lparr>writable := writable rc, filename := filename rc\<rparr>) = header rc"
    "started (rc'\<lparr>writable := writable rc, filename := filename rc\<rparr>) = started rc"
    by simp_all
  with assms(1) show ?thesis by simp
next
  case (DESTROY g e)
  with assms obtain calls where
    "janus_recorder_destroy g e (Some rc) = Some (Some rc', calls)"
    by (auto split: option.splits)
  from destroy_Some[OF this] assms(1) show ?thesis by (auto split: if_splits)
qed

lemma run_keeps_header:
  "header rc \<Longrightarrow> run rc cs = Some rc' \<Longrightarrow> header rc' \<and> started rc' = started rc"
proof (induction cs arbitrary: rc)
  case Nil
  then show ?case by simp
next
  case (Cons c cs)
  from Cons.prems(2) obtain rc1 where s: "step rc c = Some rc1" and r: "run rc1 cs = Some rc'"
    by (auto split: option.splits)
  from step_keeps_header[OF Cons.prems(1) s] Cons.IH[OF _ r] show ?case by simp
qed

lemma info_json_configuration:
  "configuration rc' = configuration rc \<Longrightarrow> info_json e rc' t = info_json e rc t"
  by (simp add: configuration_def info_json_def Let_def cong: if_cong)

lemma fwrite_appends: "fwrite p sz n f acc = (res, f1, acc1) \<Longrightarrow> \<exists>more. f1 = f @ more"
  by (auto simp add: fwrite_def Let_def)

lemma save_info_header_appends:
  assumes "save_info_header e now rc f acc = Some (rc1, f1, acc1)"
  shows "\<exists>more. f1 = f @ more"
proof -
  from assms obtain info_text where
    j: "json_dumps e (info_json e rc (janus_get_real_time e)) = Some info_text"
    by (cases "json_dumps e (info_json e rc (janus_get_real_time e))")
       (simp_all add: save_info_header_def)
  obtain r1 g1 a1 where w1: "fwrite (htons (word_of_nat (length info_text))) 2 1 f acc = (r1, g1, a1)"
    by (metis prod_cases3)
  obtain r2 g2 a2 where w2: "fwrite (bytes_of info_text) 1 (length info_text) g1 a1 = (r2, g2, a2)"
    by (metis prod_cases3)
  from assms j w1 w2 have "f1 = g2" by (simp add: save_info_header_def Let_def)
  with fwrite_appends[OF w1] fwrite_appends[OF w2] show ?thesis by auto
qed

lemma save_frame_header_appends:
  assumes "save_frame_header e now rc len f acc = (f1, acc1)"
  shows "\<exists>more. f1 = f @ more"
proof -
  obtain r1 g1 a1 where w1: "fwrite (bytes_of frame_header) 1 (length frame_header) f acc = (r1, g1, a1)"
    by (metis prod_cases3)
  obtain r2 g2 a2 where w2: "fwrite (htonl (word_of_int (if now > started rc
                                    then (now - started rc) div 1000 else 0))) 4 1 g1 a1 = (r2, g2, a2)"
    by (metis prod_cases3)
  obtain r3 g3 a3 where w3: "fwrite (htons (if type rc = JANUS_RECORDER_DATA
                          then word_of_nat (unat len + 8) else ucast len)) 2 1 g2 a2 = (r3, g3, a3)"
    by (metis prod_cases3)
  obtain r4 g4 a4 where w4: "fwrite (htonll (word_of_int (janus_get_real_time_data e))) 8 1 g3 a3 = (r4, g4, a4)"
    by (metis prod_cases3)
  from assms w1 w2 w3 w4 have "f1 = (if type rc = JANUS_RECORDER_DATA then g4 else g3)"
    by (simp add: save_frame_header_def Let_def split: if_splits)
  with fwrite_appends[OF w1] fwrite_appends[OF w2] fwrite_appends[OF w3] fwrite_appends[OF w4]
  show ?thesis by auto
qed

lemma save_packet_appends:
  "save_packet buffer len tot f acc = (ok, f1, acc1) \<Longrightarrow> \<exists>more. f1 = f @ more"
proof (induction buffer len tot f acc rule: save_packet.induct)
  case (1 buffer len tot f acc)
  show ?case
  proof (cases "tot > 0")
    case False
    with "1.prems" show ?thesis by (subst (asm) save_packet.simps) simp
  next
    case True
    obtain temp g1 a1 where w: "fwrite (drop (len - nat tot) buffer) 1 (nat tot) f acc = (temp, g1, a1)"
      by (metis prod_cases3)
    from fwrite_appends[OF w] obtain m1 where m1: "g1 = f @ m1" ..
    show ?thesis
    proof (cases "int temp \<le> 0")
      case t: True
      from "1.prems" True w t have "f1 = g1" by (subst (asm) save_packet.simps) simp
      with m1 show ?thesis by simp
    next
      case t: False
      from "1.prems" True w t have "save_packet buffer len (tot - int temp) g1 a1 = (ok, f1, acc1)"
        by (subst (asm) save_packet.simps) simp
      from "1.IH"[OF True w[symmetric] refl t this] m1 show ?thesis by auto
    qed
  qed
qed

text \<open>The recorder a write leaves behind.\<close>

lemma save_frame_recorder:
  assumes "janus_recorder_save_frame e (Some rc) buffer len = Some (r, recorder', buffer')"
  shows "(r = 0 \<or> r = -6 \<longrightarrow>
           (\<exists>f more ctx1. file' rc = Some f \<and>
              recorder' = Some ((if header rc then rc
                                 else rc\<lparr>started := janus_get_monotonic_time e, header := True\<rparr>)
                                \<lparr>file' := Some (f @ more), context' := ctx1\<rparr>))) \<and>
         (r \<noteq> 0 \<and> r \<noteq> -6 \<longrightarrow> recorder' = Some rc)"
proof (cases "r = 0 \<or> r = -6")
  case False
  with save_frame_flags[OF assms] show ?thesis by simp
next
  case True
  from save_frame_accepted[OF assms True] obtain buf f where
    b: "buffer = Some buf" and l: "1 \<le> len" and f: "file' rc = Some f" and
    w: "writable rc" "\<not> paused rc" and
    j: "header rc \<or> (\<exists>info_text. json_dumps e (info_json e rc (janus_get_real_time e)) = Some info_text)"
    by blast
  have nz: "len \<noteq> 0" using l by (auto simp add: word_le_nat_alt)
  define rc1 where "rc1 = (if header rc then rc
     else rc\<lparr>started := janus_get_monotonic_time e, header := True\<rparr>)"
  have "\<exists>f1 acc1. (if \<not> header rc
          then save_info_header e (janus_get_monotonic_time e) rc f (fwrite_accepts e)
          else Some (rc, f, fwrite_accepts e)) = Some (rc1, f1, acc1)"
  proof (cases "header rc")
    case True
    then show ?thesis by (simp add: rc1_def)
  next
    case False
    with j obtain info_text where
      "json_dumps e (info_json e rc (janus_get_real_time e)) = Some info_text"
      by blast
    with False show ?thesis
      by (auto simp add: rc1_def save_info_header_def Let_def split: prod.splits)
  qed
  then obtain f1 acc1 where i: "(if \<not> header rc
          then save_info_header e (janus_get_monotonic_time e) rc f (fwrite_accepts e)
          else Some (rc, f, fwrite_accepts e)) = Some (rc1, f1, acc1)"
    by blast
  have m1: "\<exists>more. f1 = f @ more"
  proof (cases "header rc")
    case True
    with i show ?thesis by simp
  next
    case False
    with i have "save_info_header e (janus_get_monotonic_time e) rc f (fwrite_accepts e) = Some (rc1, f1, acc1)"
      by simp
    then show ?thesis by (rule save_info_header_appends)
  qed
  obtain f2 acc2 where fh: "save_frame_header e (janus_get_monotonic_time e) rc1 len f1 acc1 = (f2, acc2)"
    by (cases "save_frame_header e (janus_get_monotonic_time e) rc1 len f1 acc1")
  obtain buf1 ctx1 where ed: "edit_packet_header e rc1 buf = (buf1, ctx1)"
    by (cases "edit_packet_header e rc1 buf")
  obtain ok f3 acc3 where sp: "save_packet buf1 (unat len) (sint len) f2 acc2 = (ok, f3, acc3)"
    by (cases "save_packet buf1 (unat len) (sint len) f2 acc2")
  from m1 save_frame_header_appends[OF fh] save_packet_appends[OF sp]
  obtain more where m: "f3 = f @ more" by auto
  note st = save_frame_stages[OF f w nz i fh ed sp]
  from assms b st have "recorder' = Some (rc1\<lparr>file' := Some f3, context' := ctx1\<rparr>)"
    by (auto split: if_splits)
  with True f m show ?thesis unfolding rc1_def by blast
qed

lemma save_frame_configuration:
  assumes "janus_recorder_save_frame e (Some rc) buffer len = Some (r, Some rc', buffer')"
  shows "configuration rc' = configuration rc \<and>
         (\<forall>f. file' rc = Some f \<longrightarrow> (\<exists>more. file' rc' = Some (f @ more)))"
proof (cases "r = 0 \<or> r = -6")
  case False
  with save_frame_recorder[OF assms] show ?thesis by simp
next
  case True
  with save_frame_recorder[OF assms] obtain f more ctx1 where
    "file' rc = Some f"
    "rc' = (if header rc then rc
            else rc\<lparr>started := janus_get_monotonic_time e, header := True\<rparr>)
           \<lparr>file' := Some (f @ more), context' := ctx1\<rparr>"
    by auto
  then show ?thesis by (simp add: configuration_def)
qed

text \<open>Once the header flag is set no call changes the configuration, and no call takes
  anything back from the stream.\<close>

lemma step_keeps_configuration:
  assumes "header rc" "step rc c = Some rc'"
  shows "configuration rc' = configuration rc"
proof (cases c)
  case PAUSE
  with assms show ?thesis
    by (auto simp add: configuration_def janus_recorder_pause_def
        g_atomic_int_compare_and_exchange_def split: if_splits)
next
  case (RESUME e)
  with assms show ?thesis
    by (auto simp add: configuration_def janus_recorder_resume_def
        g_atomic_int_compare_and_exchange_def Let_def split: if_splits)
next
  case (ADD_EXTMAP i x)
  then have "is_setter c" by simp
  from setter_step_after_header[OF assms(1) this] assms(2) show ?thesis by simp
next
  case (DESCRIPTION d)
  then have "is_setter c" by simp
  from setter_step_after_header[OF assms(1) this] assms(2) show ?thesis by simp
next
  case (OPUSRED p)
  then have "is_setter c" by simp
  from setter_step_after_header[OF assms(1) this] assms(2) show ?thesis by simp
next
  case ENCRYPTED
  then have "is_setter c" by simp
  from setter_step_after_header[OF assms(1) this] assms(2) show ?thesis by simp
next
  case (SAVE_FRAME e b l)
  with assms obtain r b' where
    "janus_recorder_save_frame e (Some rc) b l = Some (r, Some rc', b')"
    by (auto split: option.splits)
  from save_frame_configuration[OF this] show ?thesis by simp
next
  case (CLOSE g e)
  with assms obtain r calls where
    "janus_recorder_close g e (Some rc) = Some (r, Some rc', calls)"
    by (auto split: option.splits)
  from close_Some[OF this] have "rc'\<lparr>writable := writable rc, filename := filename rc\<rparr> = rc"
    by simp
  then have "configuration (rc'\<lparr>writable := writable rc, filename := filename rc\<rparr>) = configuration rc"
    by simp
  then show ?thesis by (simp add: configuration_def)
next
  case (DESTROY g e)
  with assms obtain calls where
    "janus_recorder_destroy g e (Some rc) = Some (Some rc', calls)"
    by (auto split: option.splits)
  from destroy_Some[OF this] show ?thesis by (auto simp add: configuration_def split: if_splits)
qed

lemma step_extends_stream:
  assumes "file' rc = Some f" "step rc c = Some rc'"
  shows "\<exists>more. file' rc' = Some (f @ more)"
proof (cases c)
  case PAUSE
  with assms show ?thesis
    by (auto simp add: janus_recorder_pause_def
        g_atomic_int_compare_and_exchange_def split: if_splits)
next
  case (RESUME e)
  with assms show ?thesis
    by (auto simp add: janus_recorder_resume_def
        g_atomic_int_compare_and_exchange_def Let_def split: if_splits)
next
  case (ADD_EXTMAP i x)
  with assms show ?thesis
    by (auto simp add: janus_recorder_add_extmap_def Let_def split: if_splits option.splits)
next
  case (DESCRIPTION d)
  with assms show ?thesis
    by (auto simp add: janus_recorder_description_def split: if_splits option.splits)
next
  case (OPUSRED p)
  with assms show ?thesis by (auto simp add: janus_recorder_opusred_def split: if_splits)
next
  case ENCRYPTED
  with assms show ?thesis by (auto simp add: janus_recorder_encrypted_def split: if_splits)
next
  case (SAVE_FRAME e b l)
  with assms obtain r b' where
    "janus_recorder_save_frame e (Some rc) b l = Some (r, Some rc', b')"
    by (auto split: option.splits)
  from save_frame_configuration[OF this] assms(1) show ?thesis by simp
next
  case (CLOSE g e)
  with assms obtain r calls where
    "janus_recorder_close g e (Some rc) = Some (r, Some rc', calls)"
    by (auto split: option.splits)
  from close_Some[OF this] have "rc'\<lparr>writable := writable rc, filename := filename rc\<rparr> = rc"
    by simp
  then have "file' (rc'\<lparr>writable := writable rc, filename := filename rc\<rparr>) = file' rc"
    by simp
  with assms(1) show ?thesis by simp
next
  case (DESTROY g e)
  with assms obtain calls where
    "janus_recorder_destroy g e (Some rc) = Some (Some rc', calls)"
    by (auto split: option.splits)
  from destroy_Some[OF this] assms(1) show ?thesis by (auto split: if_splits)
qed

lemma run_keeps_configuration:
  "header rc \<Longrightarrow> run rc cs = Some rc' \<Longrightarrow> configuration rc' = configuration rc"
proof (induction cs arbitrary: rc)
  case Nil
  then show ?case by simp
next
  case (Cons c cs)
  from Cons.prems(2) obtain rc1 where s: "step rc c = Some rc1" and r: "run rc1 cs = Some rc'"
    by (auto split: option.splits)
  from step_keeps_header[OF Cons.prems(1) s] have "header rc1" by simp
  from Cons.IH[OF this r] step_keeps_configuration[OF Cons.prems(1) s] show ?case by simp
qed

lemma run_extends_stream:
  "file' rc = Some f \<Longrightarrow> run rc cs = Some rc' \<Longrightarrow> \<exists>more. file' rc' = Some (f @ more)"
proof (induction cs arbitrary: rc f)
  case Nil
  then show ?case by simp
next
  case (Cons c cs)
  from Cons.prems(2) obtain rc1 where s: "step rc c = Some rc1" and r: "run rc1 cs = Some rc'"
    by (auto split: option.splits)
  from step_extends_stream[OF Cons.prems(1) s] obtain m1 where m1: "file' rc1 = Some (f @ m1)" ..
  from Cons.IH[OF m1 r] show ?case by auto
qed


subsection \<open>The configuration after the first write\<close>

text \<open>
  C7. Once the info header has been written, adding an extension mapping, setting the
  RED payload type and marking the recording encrypted return -1, setting the
  description returns 0, and each of them leaves the whole recorder as it was: its
  configuration and the stream, with the info block already in it. So does every
  sequence of such calls. Adding an extension mapping also returns -1 and changes
  nothing when the id is below 1 or above 15 or the name is \<open>NULL\<close>.
  The info block is emitted by the first write of a frame that gets past the checks and
  the conversion of the header to text: it is the text of the info header built from
  the configuration the recorder has at that call, behind its length. The write sets the
  header flag and leaves the configuration as it was, and so does every sequence of
  calls after it (setters, writes, pause, resume, close, destroy); when the stream takes
  all that is written to it the block stands right behind what the stream held before,
  and every later call leaves it there and only adds behind it.
\<close>

theorem setters_after_header:
  "(header rc \<longrightarrow>
      janus_recorder_add_extmap (Some rc) id' extmap = (-1, Some rc) \<and>
      janus_recorder_opusred (Some rc) red_pt = (-1, Some rc) \<and>
      janus_recorder_encrypted (Some rc) = (-1, Some rc) \<and>
      janus_recorder_description (Some rc) (Some d) = (0, Some rc) \<and>
      (list_all is_setter cs \<longrightarrow> run rc cs = Some rc)) \<and>
   (id' < 1 \<or> 15 < id' \<or> extmap = None \<longrightarrow>
      janus_recorder_add_extmap (Some rc) id' extmap = (-1, Some rc)) \<and>
   (\<not> header fresh \<and>
    janus_recorder_save_frame e (Some fresh) buffer len = Some (r, Some written, buffer') \<and>
    (r = 0 \<or> r = -6) \<and> run written cs' = Some later \<longrightarrow>
      header written \<and> header later \<and>
      configuration written = configuration fresh \<and> configuration later = configuration fresh \<and>
      info_json e' later t = info_json e' fresh t \<and>
      (\<exists>info_text f. json_dumps e (info_json e fresh (janus_get_real_time e)) = Some info_text \<and>
         file' fresh = Some f \<and>
         (fwrite_accepts e = [] \<longrightarrow>
            (\<exists>rest more.
               file' written =
                 Some (f @ htons (word_of_nat (length info_text)) @ bytes_of info_text @ rest) \<and>
               file' later =
                 Some (f @ htons (word_of_nat (length info_text)) @ bytes_of info_text @ rest
                         @ more)))))"
proof (intro conjI impI)
  assume "header rc"
  then show "janus_recorder_add_extmap (Some rc) id' extmap = (-1, Some rc)"
    "janus_recorder_opusred (Some rc) red_pt = (-1, Some rc)"
    "janus_recorder_encrypted (Some rc) = (-1, Some rc)"
    "janus_recorder_description (Some rc) (Some d) = (0, Some rc)"
    by (simp_all add: janus_recorder_add_extmap_def janus_recorder_opusred_def
        janus_recorder_encrypted_def janus_recorder_description_def)
next
  assume "header rc" "list_all is_setter cs"
  then show "run rc cs = Some rc" by (rule setters_run_after_header)
next
  assume "id' < 1 \<or> 15 < id' \<or> extmap = None"
  then show "janus_recorder_add_extmap (Some rc) id' extmap = (-1, Some rc)"
    by (auto simp add: janus_recorder_add_extmap_def)
next
  assume a: "\<not> header fresh \<and>
    janus_recorder_save_frame e (Some fresh) buffer len = Some (r, Some written, buffer') \<and>
    (r = 0 \<or> r = -6) \<and> run written cs' = Some later"
  note nh = a[THEN conjunct1]
  note sf = a[THEN conjunct2, THEN conjunct1]
  note r = a[THEN conjunct2, THEN conjunct2, THEN conjunct1]
  note run = a[THEN conjunct2, THEN conjunct2, THEN conjunct2]
  from save_frame_flags[OF sf] r show hw: "header written" by auto
  from run_keeps_header[OF hw run] show "header later" by simp
  from save_frame_configuration[OF sf] show cw: "configuration written = configuration fresh"
    by simp
  from run_keeps_configuration[OF hw run] cw
  show cl: "configuration later = configuration fresh" by simp
  from cl show "info_json e' later t = info_json e' fresh t" by (rule info_json_configuration)
  from save_frame_accepted[OF sf r] nh obtain buf f info_text where
    b: "buffer = Some buf" and l: "1 \<le> len" and f: "file' fresh = Some f" and
    w: "writable fresh" "\<not> paused fresh" and
    h: "type fresh \<noteq> JANUS_RECORDER_DATA \<longrightarrow> 12 \<le> length buf" and
    p: "0 < sint len \<longrightarrow> unat len \<le> length buf" and
    j: "json_dumps e (info_json e fresh (janus_get_real_time e)) = Some info_text"
    by blast
  have "fwrite_accepts e = [] \<longrightarrow>
            (\<exists>rest more.
               file' written =
                 Some (f @ htons (word_of_nat (length info_text)) @ bytes_of info_text @ rest) \<and>
               file' later =
                 Some (f @ htons (word_of_nat (length info_text)) @ bytes_of info_text @ rest
                         @ more))"
  proof
    assume acc: "fwrite_accepts e = []"
    from save_frame_first[OF f w l nh j acc h p] sf b
    obtain rest where
      fw: "file' written =
             Some (f @ htons (word_of_nat (length info_text)) @ bytes_of info_text @ rest)"
      by auto
    from run_extends_stream[OF fw run] obtain more where
      "file' later =
         Some ((f @ htons (word_of_nat (length info_text)) @ bytes_of info_text @ rest) @ more)"
      ..
    with fw show "\<exists>rest more.
               file' written =
                 Some (f @ htons (word_of_nat (length info_text)) @ bytes_of info_text @ rest) \<and>
               file' later =
                 Some (f @ htons (word_of_nat (length info_text)) @ bytes_of info_text @ rest
                         @ more)"
      by auto
  qed
  with j f
  show "\<exists>info_text f. json_dumps e (info_json e fresh (janus_get_real_time e)) = Some info_text \<and>
         file' fresh = Some f \<and>
         (fwrite_accepts e = [] \<longrightarrow>
            (\<exists>rest more.
               file' written =
                 Some (f @ htons (word_of_nat (length info_text)) @ bytes_of info_text @ rest) \<and>
               file' later =
                 Some (f @ htons (word_of_nat (length info_text)) @ bytes_of info_text @ rest
                         @ more)))"
    by blast
qed

theorem setters_after_header_witness:
  "janus_recorder_description (Some (example_recorder JANUS_RECORDER_AUDIO ''opus'')) (Some ''early'') =
     (0, Some ((example_recorder JANUS_RECORDER_AUDIO ''opus'')\<lparr>description := Some ''early''\<rparr>)) \<and>
   janus_recorder_save_frame (example_env\<lparr>json_dumps := example_dumps\<rparr>)
       (Some ((example_recorder JANUS_RECORDER_AUDIO ''opus'')\<lparr>description := Some ''early''\<rparr>)) (Some example_packet) 13 =
     Some (0, Some ((example_recorder JANUS_RECORDER_AUDIO ''opus'')
        \<lparr>description := Some ''early'', started := 1000000, header := True,
         file' := Some [77, 74, 82, 48, 48, 48, 48, 50, 0, 23, 116, 61, 97, 59, 99, 61, 111, 112, 117, 115,
                    59, 100, 61, 101, 97, 114, 108, 121, 59, 115, 59, 117, 59, 77, 69, 69, 84, 0, 0, 0,
                    0, 0, 13, 128, 111, 0, 17, 0, 0, 0, 34, 0, 0, 0, 51, 255],
         context' := \<lparr>ts_reset = False, seq_reset = False, last_time = 0, ctx_other = []\<rparr>\<rparr>), Some example_packet) \<and>
   janus_recorder_add_extmap (Some ((example_recorder JANUS_RECORDER_AUDIO ''opus'')
        \<lparr>description := Some ''early'', started := 1000000, header := True,
         file' := Some [77, 74, 82, 48, 48, 48, 48, 50, 0, 23, 116, 61, 97, 59, 99, 61, 111, 112, 117, 115,
                    59, 100, 61, 101, 97, 114, 108, 121, 59, 115, 59, 117, 59, 77, 69, 69, 84, 0, 0, 0,
                    0, 0, 13, 128, 111, 0, 17, 0, 0, 0, 34, 0, 0, 0, 51, 255],
         context' := \<lparr>ts_reset = False, seq_reset = False, last_time = 0, ctx_other = []\<rparr>\<rparr>)) 3 (Some ''mid'') =
     (-1, Some ((example_recorder JANUS_RECORDER_AUDIO ''opus'')
        \<lparr>description := Some ''early'', started := 1000000, header := True,
         file' := Some [77, 74, 82, 48, 48, 48, 48, 50, 0, 23, 116, 61, 97, 59, 99, 61, 111, 112, 117, 115,
                    59, 100, 61, 101, 97, 114, 108, 121, 59, 115, 59, 117, 59, 77, 69, 69, 84, 0, 0, 0,
                    0, 0, 13, 128, 111, 0, 17, 0, 0, 0, 34, 0, 0, 0, 51, 255],
         context' := \<lparr>ts_reset = False, seq_reset = False, last_time = 0, ctx_other = []\<rparr>\<rparr>)) \<and>
   janus_recorder_opusred (Some ((example_recorder JANUS_RECORDER_AUDIO ''opus'')
        \<lparr>description := Some ''early'', started := 1000000, header := True,
         file' := Some [77, 74, 82, 48, 48, 48, 48, 50, 0, 23, 116, 61, 97, 59, 99, 61, 111, 112, 117, 115,
                    59, 100, 61, 101, 97, 114, 108, 121, 59, 115, 59, 117, 59, 77, 69, 69, 84, 0, 0, 0,
                    0, 0, 13, 128, 111, 0, 17, 0, 0, 0, 34, 0, 0, 0, 51, 255],
         context' := \<lparr>ts_reset = False, seq_reset = False, last_time = 0, ctx_other = []\<rparr>\<rparr>)) 120 =
     (-1, Some ((example_recorder JANUS_RECORDER_AUDIO ''opus'')
        \<lparr>description := Some ''early'', started := 1000000, header := True,
         file' := Some [77, 74, 82, 48, 48, 48, 48, 50, 0, 23, 116, 61, 97, 59, 99, 61, 111, 112, 117, 115,
                    59, 100, 61, 101, 97, 114, 108, 121, 59, 115, 59, 117, 59, 77, 69, 69, 84, 0, 0, 0,
                    0, 0, 13, 128, 111, 0, 17, 0, 0, 0, 34, 0, 0, 0, 51, 255],
         context' := \<lparr>ts_reset = False, seq_reset = False, last_time = 0, ctx_other = []\<rparr>\<rparr>)) \<and>
   janus_recorder_encrypted (Some ((example_recorder JANUS_RECORDER_AUDIO ''opus'')
        \<lparr>description := Some ''early'', started := 1000000, header := True,
         file' := Some [77, 74, 82, 48, 48, 48, 48, 50, 0, 23, 116, 61, 97, 59, 99, 61, 111, 112, 117, 115,
                    59, 100, 61, 101, 97, 114, 108, 121, 59, 115, 59, 117, 59, 77, 69, 69, 84, 0, 0, 0,
                    0, 0, 13, 128, 111, 0, 17, 0, 0, 0, 34, 0, 0, 0, 51, 255],
         context' := \<lparr>ts_reset = False, seq_reset = False, last_time = 0, ctx_other = []\<rparr>\<rparr>)) =
     (-1, Some ((example_recorder JANUS_RECORDER_AUDIO ''opus'')
        \<lparr>description := Some ''early'', started := 1000000, header := True,
         file' := Some [77, 74, 82, 48, 48, 48, 48, 50, 0, 23, 116, 61, 97, 59, 99, 61, 111, 112, 117, 115,
                    59, 100, 61, 101, 97, 114, 108, 121, 59, 115, 59, 117, 59, 77, 69, 69, 84, 0, 0, 0,
                    0, 0, 13, 128, 111, 0, 17, 0, 0, 0, 34, 0, 0, 0, 51, 255],
         context' := \<lparr>ts_reset = False, seq_reset = False, last_time = 0, ctx_other = []\<rparr>\<rparr>)) \<and>
   janus_recorder_description (Some ((example_recorder JANUS_RECORDER_AUDIO ''opus'')
        \<lparr>description := Some ''early'', started := 1000000, header := True,
         file' := Some [77, 74, 82, 48, 48, 48, 48, 50, 0, 23, 116, 61, 97, 59, 99, 61, 111, 112, 117, 115,
                    59, 100, 61, 101, 97, 114, 108, 121, 59, 115, 59, 117, 59, 77, 69, 69, 84, 0, 0, 0,
                    0, 0, 13, 128, 111, 0, 17, 0, 0, 0, 34, 0, 0, 0, 51, 255],
         context' := \<lparr>ts_reset = False, seq_reset = False, last_time = 0, ctx_other = []\<rparr>\<rparr>)) (Some ''late'') =
     (0, Some ((example_recorder JANUS_RECORDER_AUDIO ''opus'')
        \<lparr>description := Some ''early'', started := 1000000, header := True,
         file' := Some [77, 74, 82, 48, 48, 48, 48, 50, 0, 23, 116, 61, 97, 59, 99, 61, 111, 112, 117, 115,
                    59, 100, 61, 101, 97, 114, 108, 121, 59, 115, 59, 117, 59, 77, 69, 69, 84, 0, 0, 0,
                    0, 0, 13, 128, 111, 0, 17, 0, 0, 0, 34, 0, 0, 0, 51, 255],
         context' := \<lparr>ts_reset = False, seq_reset = False, last_time = 0, ctx_other = []\<rparr>\<rparr>)) \<and>
   run ((example_recorder JANUS_RECORDER_AUDIO ''opus'')
        \<lparr>description := Some ''early'', started := 1000000, header := True,
         file' := Some [77, 74, 82, 48, 48, 48, 48, 50, 0, 23, 116, 61, 97, 59, 99, 61, 111, 112, 117, 115,
                    59, 100, 61, 101, 97, 114, 108, 121, 59, 115, 59, 117, 59, 77, 69, 69, 84, 0, 0, 0,
                    0, 0, 13, 128, 111, 0, 17, 0, 0, 0, 34, 0, 0, 0, 51, 255],
         context' := \<lparr>ts_reset = False, seq_reset = False, last_time = 0, ctx_other = []\<rparr>\<rparr>)
       [ADD_EXTMAP 3 (Some ''mid''), DESCRIPTION (Some ''late''), OPUSRED 120, ENCRYPTED] =
     Some ((example_recorder JANUS_RECORDER_AUDIO ''opus'')
        \<lparr>description := Some ''early'', started := 1000000, header := True,
         file' := Some [77, 74, 82, 48, 48, 48, 48, 50, 0, 23, 116, 61, 97, 59, 99, 61, 111, 112, 117, 115,
                    59, 100, 61, 101, 97, 114, 108, 121, 59, 115, 59, 117, 59, 77, 69, 69, 84, 0, 0, 0,
                    0, 0, 13, 128, 111, 0, 17, 0, 0, 0, 34, 0, 0, 0, 51, 255],
         context' := \<lparr>ts_reset = False, seq_reset = False, last_time = 0, ctx_other = []\<rparr>\<rparr>) \<and>
   run ((example_recorder JANUS_RECORDER_AUDIO ''opus'')
        \<lparr>description := Some ''early'', started := 1000000, header := True,
         file' := Some [77, 74, 82, 48, 48, 48, 48, 50, 0, 23, 116, 61, 97, 59, 99, 61, 111, 112, 117, 115,
                    59, 100, 61, 101, 97, 114, 108, 121, 59, 115, 59, 117, 59, 77, 69, 69, 84, 0, 0, 0,
                    0, 0, 13, 128, 111, 0, 17, 0, 0, 0, 34, 0, 0, 0, 51, 255],
         context' := \<lparr>ts_reset = False, seq_reset = False, last_time = 0, ctx_other = []\<rparr>\<rparr>)
       [DESCRIPTION (Some ''late''), ENCRYPTED, SAVE_FRAME (example_env\<lparr>json_dumps := example_dumps, janus_get_monotonic_time := 1020000\<rparr>) (Some example_packet) 13] =
     Some ((example_recorder JANUS_RECORDER_AUDIO ''opus'')
        \<lparr>description := Some ''early'', started := 1000000, header := True,
         file' := Some [77, 74, 82, 48, 48, 48, 48, 50, 0, 23, 116, 61, 97, 59, 99, 61, 111, 112, 117, 115,
                    59, 100, 61, 101, 97, 114, 108, 121, 59, 115, 59, 117, 59, 77, 69, 69, 84, 0, 0, 0,
                    0, 0, 13, 128, 111, 0, 17, 0, 0, 0, 34, 0, 0, 0, 51, 255, 77, 69, 69, 84, 0, 0,
                    0, 20, 0, 13, 128, 111, 0, 17, 0, 0, 0, 34, 0, 0, 0, 51, 255],
         context' := \<lparr>ts_reset = False, seq_reset = False, last_time = 0, ctx_other = []\<rparr>\<rparr>) \<and>
   configuration ((example_recorder JANUS_RECORDER_AUDIO ''opus'')
        \<lparr>description := Some ''early'', started := 1000000, header := True,
         file' := Some [77, 74, 82, 48, 48, 48, 48, 50, 0, 23, 116, 61, 97, 59, 99, 61, 111, 112, 117, 115,
                    59, 100, 61, 101, 97, 114, 108, 121, 59, 115, 59, 117, 59, 77, 69, 69, 84, 0, 0, 0,
                    0, 0, 13, 128, 111, 0, 17, 0, 0, 0, 34, 0, 0, 0, 51, 255, 77, 69, 69, 84, 0, 0,
                    0, 20, 0, 13, 128, 111, 0, 17, 0, 0, 0, 34, 0, 0, 0, 51, 255],
         context' := \<lparr>ts_reset = False, seq_reset = False, last_time = 0, ctx_other = []\<rparr>\<rparr>) =
     configuration ((example_recorder JANUS_RECORDER_AUDIO ''opus'')\<lparr>description := Some ''early''\<rparr>) \<and>
   info_json (example_env\<lparr>json_dumps := example_dumps\<rparr>) ((example_recorder JANUS_RECORDER_AUDIO ''opus'')
        \<lparr>description := Some ''early'', started := 1000000, header := True,
         file' := Some [77, 74, 82, 48, 48, 48, 48, 50, 0, 23, 116, 61, 97, 59, 99, 61, 111, 112, 117, 115,
                    59, 100, 61, 101, 97, 114, 108, 121, 59, 115, 59, 117, 59, 77, 69, 69, 84, 0, 0, 0,
                    0, 0, 13, 128, 111, 0, 17, 0, 0, 0, 34, 0, 0, 0, 51, 255, 77, 69, 69, 84, 0, 0,
                    0, 20, 0, 13, 128, 111, 0, 17, 0, 0, 0, 34, 0, 0, 0, 51, 255],
         context' := \<lparr>ts_reset = False, seq_reset = False, last_time = 0, ctx_other = []\<rparr>\<rparr>) 7 =
     info_json (example_env\<lparr>json_dumps := example_dumps\<rparr>) ((example_recorder JANUS_RECORDER_AUDIO ''opus'')\<lparr>description := Some ''early''\<rparr>) 7 \<and>
   janus_recorder_add_extmap (Some (example_recorder JANUS_RECORDER_AUDIO ''opus'')) 16 (Some ''mid'') =
     (-1, Some (example_recorder JANUS_RECORDER_AUDIO ''opus'')) \<and>
   janus_recorder_add_extmap (Some (example_recorder JANUS_RECORDER_AUDIO ''opus'')) 0 (Some ''mid'') =
     (-1, Some (example_recorder JANUS_RECORDER_AUDIO ''opus'')) \<and>
   janus_recorder_add_extmap (Some (example_recorder JANUS_RECORDER_AUDIO ''opus'')) 3 None =
     (-1, Some (example_recorder JANUS_RECORDER_AUDIO ''opus''))"
proof -
  have z: "janus_recorder_description (Some (example_recorder JANUS_RECORDER_AUDIO ''opus'')) (Some ''early'') =
     (0, Some ((example_recorder JANUS_RECORDER_AUDIO ''opus'')\<lparr>description := Some ''early''\<rparr>))"
    by (simp add: janus_recorder_description_def example_recorder_def)
  have a: "janus_recorder_save_frame (example_env\<lparr>json_dumps := example_dumps\<rparr>)
       (Some ((example_recorder JANUS_RECORDER_AUDIO ''opus'')\<lparr>description := Some ''early''\<rparr>)) (Some example_packet) 13 =
     Some (0, Some ((example_recorder JANUS_RECORDER_AUDIO ''opus'')
        \<lparr>description := Some ''early'', started := 1000000, header := True,
         file' := Some [77, 74, 82, 48, 48, 48, 48, 50, 0, 23, 116, 61, 97, 59, 99, 61, 111, 112, 117, 115,
                    59, 100, 61, 101, 97, 114, 108, 121, 59, 115, 59, 117, 59, 77, 69, 69, 84, 0, 0, 0,
                    0, 0, 13, 128, 111, 0, 17, 0, 0, 0, 34, 0, 0, 0, 51, 255],
         context' := \<lparr>ts_reset = False, seq_reset = False, last_time = 0, ctx_other = []\<rparr>\<rparr>), Some example_packet)"
    by (simp add: example_defs example_dumps_def save_frame_defs info_json_def
        json_object_set_new_def json_string_def Let_def)
  have b: "janus_recorder_add_extmap (Some ((example_recorder JANUS_RECORDER_AUDIO ''opus'')
        \<lparr>description := Some ''early'', started := 1000000, header := True,
         file' := Some [77, 74, 82, 48, 48, 48, 48, 50, 0, 23, 116, 61, 97, 59, 99, 61, 111, 112, 117, 115,
                    59, 100, 61, 101, 97, 114, 108, 121, 59, 115, 59, 117, 59, 77, 69, 69, 84, 0, 0, 0,
                    0, 0, 13, 128, 111, 0, 17, 0, 0, 0, 34, 0, 0, 0, 51, 255],
         context' := \<lparr>ts_reset = False, seq_reset = False, last_time = 0, ctx_other = []\<rparr>\<rparr>)) 3 (Some ''mid'') =
     (-1, Some ((example_recorder JANUS_RECORDER_AUDIO ''opus'')
        \<lparr>description := Some ''early'', started := 1000000, header := True,
         file' := Some [77, 74, 82, 48, 48, 48, 48, 50, 0, 23, 116, 61, 97, 59, 99, 61, 111, 112, 117, 115,
                    59, 100, 61, 101, 97, 114, 108, 121, 59, 115, 59, 117, 59, 77, 69, 69, 84, 0, 0, 0,
                    0, 0, 13, 128, 111, 0, 17, 0, 0, 0, 34, 0, 0, 0, 51, 255],
         context' := \<lparr>ts_reset = False, seq_reset = False, last_time = 0, ctx_other = []\<rparr>\<rparr>))"
    using setters_after_header[where rc = "(example_recorder JANUS_RECORDER_AUDIO ''opus'')
        \<lparr>description := Some ''early'', started := 1000000, header := True,
         file' := Some [77, 74, 82, 48, 48, 48, 48, 50, 0, 23, 116, 61, 97, 59, 99, 61, 111, 112, 117, 115,
                    59, 100, 61, 101, 97, 114, 108, 121, 59, 115, 59, 117, 59, 77, 69, 69, 84, 0, 0, 0,
                    0, 0, 13, 128, 111, 0, 17, 0, 0, 0, 34, 0, 0, 0, 51, 255],
         context' := \<lparr>ts_reset = False, seq_reset = False, last_time = 0, ctx_other = []\<rparr>\<rparr>" and
      id' = 3 and extmap = "Some ''mid''" and red_pt = 120 and d = "''late''" and
      cs = "[ADD_EXTMAP 3 (Some ''mid''), DESCRIPTION (Some ''late''), OPUSRED 120, ENCRYPTED]"]
    by (simp add: example_recorder_def)
  have c: "janus_recorder_opusred (Some ((example_recorder JANUS_RECORDER_AUDIO ''opus'')
        \<lparr>description := Some ''early'', started := 1000000, header := True,
         file' := Some [77, 74, 82, 48, 48, 48, 48, 50, 0, 23, 116, 61, 97, 59, 99, 61, 111, 112, 117, 115,
                    59, 100, 61, 101, 97, 114, 108, 121, 59, 115, 59, 117, 59, 77, 69, 69, 84, 0, 0, 0,
                    0, 0, 13, 128, 111, 0, 17, 0, 0, 0, 34, 0, 0, 0, 51, 255],
         context' := \<lparr>ts_reset = False, seq_reset = False, last_time = 0, ctx_other = []\<rparr>\<rparr>)) 120 =
     (-1, Some ((example_recorder JANUS_RECORDER_AUDIO ''opus'')
        \<lparr>description := Some ''early'', started := 1000000, header := True,
         file' := Some [77, 74, 82, 48, 48, 48, 48, 50, 0, 23, 116, 61, 97, 59, 99, 61, 111, 112, 117, 115,
                    59, 100, 61, 101, 97, 114, 108, 121, 59, 115, 59, 117, 59, 77, 69, 69, 84, 0, 0, 0,
                    0, 0, 13, 128, 111, 0, 17, 0, 0, 0, 34, 0, 0, 0, 51, 255],
         context' := \<lparr>ts_reset = False, seq_reset = False, last_time = 0, ctx_other = []\<rparr>\<rparr>))"
    using setters_after_header[where rc = "(example_recorder JANUS_RECORDER_AUDIO ''opus'')
        \<lparr>description := Some ''early'', started := 1000000, header := True,
         file' := Some [77, 74, 82, 48, 48, 48, 48, 50, 0, 23, 116, 61, 97, 59, 99, 61, 111, 112, 117, 115,
                    59, 100, 61, 101, 97, 114, 108, 121, 59, 115, 59, 117, 59, 77, 69, 69, 84, 0, 0, 0,
                    0, 0, 13, 128, 111, 0, 17, 0, 0, 0, 34, 0, 0, 0, 51, 255],
         context' := \<lparr>ts_reset = False, seq_reset = False, last_time = 0, ctx_other = []\<rparr>\<rparr>" and
      id' = 3 and extmap = "Some ''mid''" and red_pt = 120 and d = "''late''" and
      cs = "[ADD_EXTMAP 3 (Some ''mid''), DESCRIPTION (Some ''late''), OPUSRED 120, ENCRYPTED]"]
    by (simp add: example_recorder_def)
  have d: "janus_recorder_encrypted (Some ((example_recorder JANUS_RECORDER_AUDIO ''opus'')
        \<lparr>description := Some ''early'', started := 1000000, header := True,
         file' := Some [77, 74, 82, 48, 48, 48, 48, 50, 0, 23, 116, 61, 97, 59, 99, 61, 111, 112, 117, 115,
                    59, 100, 61, 101, 97, 114, 108, 121, 59, 115, 59, 117, 59, 77, 69, 69, 84, 0, 0, 0,
                    0, 0, 13, 128, 111, 0, 17, 0, 0, 0, 34, 0, 0, 0, 51, 255],
         context' := \<lparr>ts_reset = False, seq_reset = False, last_time = 0, ctx_other = []\<rparr>\<rparr>)) =
     (-1, Some ((example_recorder JANUS_RECORDER_AUDIO ''opus'')
        \<lparr>description := Some ''early'', started := 1000000, header := True,
         file' := Some [77, 74, 82, 48, 48, 48, 48, 50, 0, 23, 116, 61, 97, 59, 99, 61, 111, 112, 117, 115,
                    59, 100, 61, 101, 97, 114, 108, 121, 59, 115, 59, 117, 59, 77, 69, 69, 84, 0, 0, 0,
                    0, 0, 13, 128, 111, 0, 17, 0, 0, 0, 34, 0, 0, 0, 51, 255],
         context' := \<lparr>ts_reset = False, seq_reset = False, last_time = 0, ctx_other = []\<rparr>\<rparr>))"
    using setters_after_header[where rc = "(example_recorder JANUS_RECORDER_AUDIO ''opus'')
        \<lparr>description := Some ''early'', started := 1000000, header := True,
         file' := Some [77, 74, 82, 48, 48, 48, 48, 50, 0, 23, 116, 61, 97, 59, 99, 61, 111, 112, 117, 115,
                    59, 100, 61, 101, 97, 114, 108, 121, 59, 115, 59, 117, 59, 77, 69, 69, 84, 0, 0, 0,
                    0, 0, 13, 128, 111, 0, 17, 0, 0, 0, 34, 0, 0, 0, 51, 255],
         context' := \<lparr>ts_reset = False, seq_reset = False, last_time = 0, ctx_other = []\<rparr>\<rparr>" and
      id' = 3 and extmap = "Some ''mid''" and red_pt = 120 and d = "''late''" and
      cs = "[ADD_EXTMAP 3 (Some ''mid''), DESCRIPTION (Some ''late''), OPUSRED 120, ENCRYPTED]"]
    by (simp add: example_recorder_def)
  have e: "janus_recorder_description (Some ((example_recorder JANUS_RECORDER_AUDIO ''opus'')
        \<lparr>description := Some ''early'', started := 1000000, header := True,
         file' := Some [77, 74, 82, 48, 48, 48, 48, 50, 0, 23, 116, 61, 97, 59, 99, 61, 111, 112, 117, 115,
                    59, 100, 61, 101, 97, 114, 108, 121, 59, 115, 59, 117, 59, 77, 69, 69, 84, 0, 0, 0,
                    0, 0, 13, 128, 111, 0, 17, 0, 0, 0, 34, 0, 0, 0, 51, 255],
         context' := \<lparr>ts_reset = False, seq_reset = False, last_time = 0, ctx_other = []\<rparr>\<rparr>)) (Some ''late'') =
     (0, Some ((example_recorder JANUS_RECORDER_AUDIO ''opus'')
        \<lparr>description := Some ''early'', started := 1000000, header := True,
         file' := Some [77, 74, 82, 48, 48, 48, 48, 50, 0, 23, 116, 61, 97, 59, 99, 61, 111, 112, 117, 115,
                    59, 100, 61, 101, 97, 114, 108, 121, 59, 115, 59, 117, 59, 77, 69, 69, 84, 0, 0, 0,
                    0, 0, 13, 128, 111, 0, 17, 0, 0, 0, 34, 0, 0, 0, 51, 255],
         context' := \<lparr>ts_reset = False, seq_reset = False, last_time = 0, ctx_other = []\<rparr>\<rparr>))"
    using setters_after_header[where rc = "(example_recorder JANUS_RECORDER_AUDIO ''opus'')
        \<lparr>description := Some ''early'', started := 1000000, header := True,
         file' := Some [77, 74, 82, 48, 48, 48, 48, 50, 0, 23, 116, 61, 97, 59, 99, 61, 111, 112, 117, 115,
                    59, 100, 61, 101, 97, 114, 108, 121, 59, 115, 59, 117, 59, 77, 69, 69, 84, 0, 0, 0,
                    0, 0, 13, 128, 111, 0, 17, 0, 0, 0, 34, 0, 0, 0, 51, 255],
         context' := \<lparr>ts_reset = False, seq_reset = False, last_time = 0, ctx_other = []\<rparr>\<rparr>" and
      id' = 3 and extmap = "Some ''mid''" and red_pt = 120 and d = "''late''" and
      cs = "[ADD_EXTMAP 3 (Some ''mid''), DESCRIPTION (Some ''late''), OPUSRED 120, ENCRYPTED]"]
    by (simp add: example_recorder_def)
  have f: "run ((example_recorder JANUS_RECORDER_AUDIO ''opus'')
        \<lparr>description := Some ''early'', started := 1000000, header := True,
         file' := Some [77, 74, 82, 48, 48, 48, 48, 50, 0, 23, 116, 61, 97, 59, 99, 61, 111, 112, 117, 115,
                    59, 100, 61, 101, 97, 114, 108, 121, 59, 115, 59, 117, 59, 77, 69, 69, 84, 0, 0, 0,
                    0, 0, 13, 128, 111, 0, 17, 0, 0, 0, 34, 0, 0, 0, 51, 255],
         context' := \<lparr>ts_reset = False, seq_reset = False, last_time = 0, ctx_other = []\<rparr>\<rparr>)
       [ADD_EXTMAP 3 (Some ''mid''), DESCRIPTION (Some ''late''), OPUSRED 120, ENCRYPTED] =
     Some ((example_recorder JANUS_RECORDER_AUDIO ''opus'')
        \<lparr>description := Some ''early'', started := 1000000, header := True,
         file' := Some [77, 74, 82, 48, 48, 48, 48, 50, 0, 23, 116, 61, 97, 59, 99, 61, 111, 112, 117, 115,
                    59, 100, 61, 101, 97, 114, 108, 121, 59, 115, 59, 117, 59, 77, 69, 69, 84, 0, 0, 0,
                    0, 0, 13, 128, 111, 0, 17, 0, 0, 0, 34, 0, 0, 0, 51, 255],
         context' := \<lparr>ts_reset = False, seq_reset = False, last_time = 0, ctx_other = []\<rparr>\<rparr>)"
    using setters_after_header[where rc = "(example_recorder JANUS_RECORDER_AUDIO ''opus'')
        \<lparr>description := Some ''early'', started := 1000000, header := True,
         file' := Some [77, 74, 82, 48, 48, 48, 48, 50, 0, 23, 116, 61, 97, 59, 99, 61, 111, 112, 117, 115,
                    59, 100, 61, 101, 97, 114, 108, 121, 59, 115, 59, 117, 59, 77, 69, 69, 84, 0, 0, 0,
                    0, 0, 13, 128, 111, 0, 17, 0, 0, 0, 34, 0, 0, 0, 51, 255],
         context' := \<lparr>ts_reset = False, seq_reset = False, last_time = 0, ctx_other = []\<rparr>\<rparr>" and
      id' = 3 and extmap = "Some ''mid''" and red_pt = 120 and d = "''late''" and
      cs = "[ADD_EXTMAP 3 (Some ''mid''), DESCRIPTION (Some ''late''), OPUSRED 120, ENCRYPTED]"]
    by (simp add: example_recorder_def)
  have g: "run ((example_recorder JANUS_RECORDER_AUDIO ''opus'')
        \<lparr>description := Some ''early'', started := 1000000, header := True,
         file' := Some [77, 74, 82, 48, 48, 48, 48, 50, 0, 23, 116, 61, 97, 59, 99, 61, 111, 112, 117, 115,
                    59, 100, 61, 101, 97, 114, 108, 121, 59, 115, 59, 117, 59, 77, 69, 69, 84, 0, 0, 0,
                    0, 0, 13, 128, 111, 0, 17, 0, 0, 0, 34, 0, 0, 0, 51, 255],
         context' := \<lparr>ts_reset = False, seq_reset = False, last_time = 0, ctx_other = []\<rparr>\<rparr>)
       [DESCRIPTION (Some ''late''), ENCRYPTED, SAVE_FRAME (example_env\<lparr>json_dumps := example_dumps, janus_get_monotonic_time := 1020000\<rparr>) (Some example_packet) 13] =
     Some ((example_recorder JANUS_RECORDER_AUDIO ''opus'')
        \<lparr>description := Some ''early'', started := 1000000, header := True,
         file' := Some [77, 74, 82, 48, 48, 48, 48, 50, 0, 23, 116, 61, 97, 59, 99, 61, 111, 112, 117, 115,
                    59, 100, 61, 101, 97, 114, 108, 121, 59, 115, 59, 117, 59, 77, 69, 69, 84, 0, 0, 0,
                    0, 0, 13, 128, 111, 0, 17, 0, 0, 0, 34, 0, 0, 0, 51, 255, 77, 69, 69, 84, 0, 0,
                    0, 20, 0, 13, 128, 111, 0, 17, 0, 0, 0, 34, 0, 0, 0, 51, 255],
         context' := \<lparr>ts_reset = False, seq_reset = False, last_time = 0, ctx_other = []\<rparr>\<rparr>)"
    by (simp add: example_defs example_dumps_def save_frame_defs janus_recorder_description_def
        janus_recorder_encrypted_def Let_def)
  have h: "configuration ((example_recorder JANUS_RECORDER_AUDIO ''opus'')
        \<lparr>description := Some ''early'', started := 1000000, header := True,
         file' := Some [77, 74, 82, 48, 48, 48, 48, 50, 0, 23, 116, 61, 97, 59, 99, 61, 111, 112, 117, 115,
                    59, 100, 61, 101, 97, 114, 108, 121, 59, 115, 59, 117, 59, 77, 69, 69, 84, 0, 0, 0,
                    0, 0, 13, 128, 111, 0, 17, 0, 0, 0, 34, 0, 0, 0, 51, 255, 77, 69, 69, 84, 0, 0,
                    0, 20, 0, 13, 128, 111, 0, 17, 0, 0, 0, 34, 0, 0, 0, 51, 255],
         context' := \<lparr>ts_reset = False, seq_reset = False, last_time = 0, ctx_other = []\<rparr>\<rparr>) =
     configuration ((example_recorder JANUS_RECORDER_AUDIO ''opus'')\<lparr>description := Some ''early''\<rparr>)"
    using setters_after_header[where fresh = "(example_recorder JANUS_RECORDER_AUDIO ''opus'')\<lparr>description := Some ''early''\<rparr>" and
      written = "(example_recorder JANUS_RECORDER_AUDIO ''opus'')
        \<lparr>description := Some ''early'', started := 1000000, header := True,
         file' := Some [77, 74, 82, 48, 48, 48, 48, 50, 0, 23, 116, 61, 97, 59, 99, 61, 111, 112, 117, 115,
                    59, 100, 61, 101, 97, 114, 108, 121, 59, 115, 59, 117, 59, 77, 69, 69, 84, 0, 0, 0,
                    0, 0, 13, 128, 111, 0, 17, 0, 0, 0, 34, 0, 0, 0, 51, 255],
         context' := \<lparr>ts_reset = False, seq_reset = False, last_time = 0, ctx_other = []\<rparr>\<rparr>" and
      later = "(example_recorder JANUS_RECORDER_AUDIO ''opus'')
        \<lparr>description := Some ''early'', started := 1000000, header := True,
         file' := Some [77, 74, 82, 48, 48, 48, 48, 50, 0, 23, 116, 61, 97, 59, 99, 61, 111, 112, 117, 115,
                    59, 100, 61, 101, 97, 114, 108, 121, 59, 115, 59, 117, 59, 77, 69, 69, 84, 0, 0, 0,
                    0, 0, 13, 128, 111, 0, 17, 0, 0, 0, 34, 0, 0, 0, 51, 255, 77, 69, 69, 84, 0, 0,
                    0, 20, 0, 13, 128, 111, 0, 17, 0, 0, 0, 34, 0, 0, 0, 51, 255],
         context' := \<lparr>ts_reset = False, seq_reset = False, last_time = 0, ctx_other = []\<rparr>\<rparr>" and
      e = "example_env\<lparr>json_dumps := example_dumps\<rparr>" and buffer = "Some example_packet" and len = 13 and r = 0 and
      buffer' = "Some example_packet" and e' = "example_env\<lparr>json_dumps := example_dumps\<rparr>" and t = 7 and
      cs' = "[DESCRIPTION (Some ''late''), ENCRYPTED, SAVE_FRAME (example_env\<lparr>json_dumps := example_dumps, janus_get_monotonic_time := 1020000\<rparr>) (Some example_packet) 13]"] a g
    by (simp add: example_recorder_def)
  have i: "info_json (example_env\<lparr>json_dumps := example_dumps\<rparr>) ((example_recorder JANUS_RECORDER_AUDIO ''opus'')
        \<lparr>description := Some ''early'', started := 1000000, header := True,
         file' := Some [77, 74, 82, 48, 48, 48, 48, 50, 0, 23, 116, 61, 97, 59, 99, 61, 111, 112, 117, 115,
                    59, 100, 61, 101, 97, 114, 108, 121, 59, 115, 59, 117, 59, 77, 69, 69, 84, 0, 0, 0,
                    0, 0, 13, 128, 111, 0, 17, 0, 0, 0, 34, 0, 0, 0, 51, 255, 77, 69, 69, 84, 0, 0,
                    0, 20, 0, 13, 128, 111, 0, 17, 0, 0, 0, 34, 0, 0, 0, 51, 255],
         context' := \<lparr>ts_reset = False, seq_reset = False, last_time = 0, ctx_other = []\<rparr>\<rparr>) 7 =
     info_json (example_env\<lparr>json_dumps := example_dumps\<rparr>) ((example_recorder JANUS_RECORDER_AUDIO ''opus'')\<lparr>description := Some ''early''\<rparr>) 7"
    using setters_after_header[where fresh = "(example_recorder JANUS_RECORDER_AUDIO ''opus'')\<lparr>description := Some ''early''\<rparr>" and
      written = "(example_recorder JANUS_RECORDER_AUDIO ''opus'')
        \<lparr>description := Some ''early'', started := 1000000, header := True,
         file' := Some [77, 74, 82, 48, 48, 48, 48, 50, 0, 23, 116, 61, 97, 59, 99, 61, 111, 112, 117, 115,
                    59, 100, 61, 101, 97, 114, 108, 121, 59, 115, 59, 117, 59, 77, 69, 69, 84, 0, 0, 0,
                    0, 0, 13, 128, 111, 0, 17, 0, 0, 0, 34, 0, 0, 0, 51, 255],
         context' := \<lparr>ts_reset = False, seq_reset = False, last_time = 0, ctx_other = []\<rparr>\<rparr>" and
      later = "(example_recorder JANUS_RECORDER_AUDIO ''opus'')
        \<lparr>description := Some ''early'', started := 1000000, header := True,
         file' := Some [77, 74, 82, 48, 48, 48, 48, 50, 0, 23, 116, 61, 97, 59, 99, 61, 111, 112, 117, 115,
                    59, 100, 61, 101, 97, 114, 108, 121, 59, 115, 59, 117, 59, 77, 69, 69, 84, 0, 0, 0,
                    0, 0, 13, 128, 111, 0, 17, 0, 0, 0, 34, 0, 0, 0, 51, 255, 77, 69, 69, 84, 0, 0,
                    0, 20, 0, 13, 128, 111, 0, 17, 0, 0, 0, 34, 0, 0, 0, 51, 255],
         context' := \<lparr>ts_reset = False, seq_reset = False, last_time = 0, ctx_other = []\<rparr>\<rparr>" and
      e = "example_env\<lparr>json_dumps := example_dumps\<rparr>" and buffer = "Some example_packet" and len = 13 and r = 0 and
      buffer' = "Some example_packet" and e' = "example_env\<lparr>json_dumps := example_dumps\<rparr>" and t = 7 and
      cs' = "[DESCRIPTION (Some ''late''), ENCRYPTED, SAVE_FRAME (example_env\<lparr>json_dumps := example_dumps, janus_get_monotonic_time := 1020000\<rparr>) (Some example_packet) 13]"] a g
    by (simp add: example_recorder_def)
  have j: "janus_recorder_add_extmap (Some (example_recorder JANUS_RECORDER_AUDIO ''opus'')) 16 (Some ''mid'') =
     (-1, Some (example_recorder JANUS_RECORDER_AUDIO ''opus''))"
    using setters_after_header[where rc = "example_recorder JANUS_RECORDER_AUDIO ''opus''" and id' = 16 and extmap = "Some ''mid''"]
    by simp
  have k: "janus_recorder_add_extmap (Some (example_recorder JANUS_RECORDER_AUDIO ''opus'')) 0 (Some ''mid'') =
     (-1, Some (example_recorder JANUS_RECORDER_AUDIO ''opus''))"
    using setters_after_header[where rc = "example_recorder JANUS_RECORDER_AUDIO ''opus''" and id' = 0 and extmap = "Some ''mid''"]
    by simp
  have l: "janus_recorder_add_extmap (Some (example_recorder JANUS_RECORDER_AUDIO ''opus'')) 3 None =
     (-1, Some (example_recorder JANUS_RECORDER_AUDIO ''opus''))"
    using setters_after_header[where rc = "example_recorder JANUS_RECORDER_AUDIO ''opus''" and id' = 3 and extmap = "None"]
    by simp
  show ?thesis by (intro conjI z a b c d e f g h i j k l)
qed


subsection \<open>The frame record\<close>
















subsection \<open>The info header and the start instant\<close>

text \<open>
  C1. The info block is written by the first write of a frame that gets past the checks
  and the conversion of the info header to text, whether or not the payload of that
  frame is then written (the call returns 0 or -6): a write that is refused leaves the
  recorder as it was, with the header flag clear. The write that emits the block sets
  the header flag and the start instant, to the reading of the clock it took; when the
  stream takes all it is given the call returns 0 and the stream holds what it held,
  then the length and the text of the info header, then the frame. From then on,
  whatever calls are made, the header flag stays set and the start instant stays what
  it is; a later write that returns 0 to a stream that takes all it is given adds the
  frame record and nothing else, and its timestamp is measured from that start instant.
\<close>

theorem info_header_written_once:
  "(\<not> header fresh \<and>
    janus_recorder_save_frame e (Some fresh) buffer len = Some (r, Some written, buffer') \<longrightarrow>
      (r \<noteq> 0 \<and> r \<noteq> -6 \<longrightarrow> written = fresh) \<and>
      (r = 0 \<or> r = -6 \<longrightarrow>
         header written \<and> started written = janus_get_monotonic_time e \<and>
         (\<exists>info_text f buf.
            json_dumps e (info_json e fresh (janus_get_real_time e)) = Some info_text \<and>
            file' fresh = Some f \<and> buffer = Some buf \<and>
            (fwrite_accepts e = [] \<longrightarrow>
               r = 0 \<and>
               file' written =
                 Some (f @ htons (word_of_nat (length info_text)) @ bytes_of info_text
                         @ bytes_of frame_header @ htonl 0
                         @ htons (if type fresh = JANUS_RECORDER_DATA
                                  then word_of_nat (unat len + 8) else ucast len)
                         @ (if type fresh = JANUS_RECORDER_DATA
                            then htonll (word_of_int (janus_get_real_time_data e)) else [])
                         @ take (nat (sint len)) (fst (edit_packet_header e fresh buf))))))) \<and>
   (header rc \<and> run rc cs = Some later \<and>
    janus_recorder_save_frame e' (Some later) packet n = Some (code, Some final, packet') \<longrightarrow>
      header later \<and> started later = started rc \<and>
      header final \<and> started final = started rc \<and>
      (code = 0 \<and> fwrite_accepts e' = [] \<longrightarrow>
         (\<exists>f buf. file' later = Some f \<and> packet = Some buf \<and>
            file' final =
              Some (f @ bytes_of frame_header
                      @ htonl (word_of_int (if janus_get_monotonic_time e' > started rc
                                            then (janus_get_monotonic_time e' - started rc) div 1000
                                            else 0))
                      @ htons (if type later = JANUS_RECORDER_DATA
                               then word_of_nat (unat n + 8) else ucast n)
                      @ (if type later = JANUS_RECORDER_DATA
                         then htonll (word_of_int (janus_get_real_time_data e')) else [])
                      @ take (nat (sint n)) (fst (edit_packet_header e' later buf))))))"
proof (intro conjI impI)
  assume a: "\<not> header fresh \<and>
    janus_recorder_save_frame e (Some fresh) buffer len = Some (r, Some written, buffer')"
  note nh = a[THEN conjunct1] and sf = a[THEN conjunct2]
  assume "r \<noteq> 0 \<and> r \<noteq> -6"
  with save_frame_flags[OF sf] show "written = fresh" by simp
next
  assume a: "\<not> header fresh \<and>
    janus_recorder_save_frame e (Some fresh) buffer len = Some (r, Some written, buffer')"
  note nh = a[THEN conjunct1] and sf = a[THEN conjunct2]
  assume r: "r = 0 \<or> r = -6"
  from save_frame_flags[OF sf] r nh show "header written" by auto
  from save_frame_flags[OF sf] r nh show "started written = janus_get_monotonic_time e" by auto
  from save_frame_accepted[OF sf r] nh obtain buf f info_text where
    b: "buffer = Some buf" and l: "1 \<le> len" and f: "file' fresh = Some f" and
    w: "writable fresh" "\<not> paused fresh" and
    h: "type fresh \<noteq> JANUS_RECORDER_DATA \<longrightarrow> 12 \<le> length buf" and
    p: "0 < sint len \<longrightarrow> unat len \<le> length buf" and
    j: "json_dumps e (info_json e fresh (janus_get_real_time e)) = Some info_text"
    by blast
  have "fwrite_accepts e = [] \<longrightarrow>
               r = 0 \<and>
               file' written =
                 Some (f @ htons (word_of_nat (length info_text)) @ bytes_of info_text
                         @ bytes_of frame_header @ htonl 0
                         @ htons (if type fresh = JANUS_RECORDER_DATA
                                  then word_of_nat (unat len + 8) else ucast len)
                         @ (if type fresh = JANUS_RECORDER_DATA
                            then htonll (word_of_int (janus_get_real_time_data e)) else [])
                         @ take (nat (sint len)) (fst (edit_packet_header e fresh buf)))"
  proof
    assume acc: "fwrite_accepts e = []"
    note sw = save_frame_first[OF f w l nh j acc h p]
    from sw sf b have "r = 0" by simp
    moreover from sw sf b have "file' written =
                 Some (f @ htons (word_of_nat (length info_text)) @ bytes_of info_text
                         @ bytes_of frame_header @ htonl 0
                         @ htons (if type fresh = JANUS_RECORDER_DATA
                                  then word_of_nat (unat len + 8) else ucast len)
                         @ (if type fresh = JANUS_RECORDER_DATA
                            then htonll (word_of_int (janus_get_real_time_data e)) else [])
                         @ take (nat (sint len)) (fst (edit_packet_header e fresh buf)))"
      by auto
    ultimately show "r = 0 \<and>
               file' written =
                 Some (f @ htons (word_of_nat (length info_text)) @ bytes_of info_text
                         @ bytes_of frame_header @ htonl 0
                         @ htons (if type fresh = JANUS_RECORDER_DATA
                                  then word_of_nat (unat len + 8) else ucast len)
                         @ (if type fresh = JANUS_RECORDER_DATA
                            then htonll (word_of_int (janus_get_real_time_data e)) else [])
                         @ take (nat (sint len)) (fst (edit_packet_header e fresh buf)))"
      by (rule conjI)
  qed
  with j f b
  show "\<exists>info_text f buf.
            json_dumps e (info_json e fresh (janus_get_real_time e)) = Some info_text \<and>
            file' fresh = Some f \<and> buffer = Some buf \<and>
            (fwrite_accepts e = [] \<longrightarrow>
               r = 0 \<and>
               file' written =
                 Some (f @ htons (word_of_nat (length info_text)) @ bytes_of info_text
                         @ bytes_of frame_header @ htonl 0
                         @ htons (if type fresh = JANUS_RECORDER_DATA
                                  then word_of_nat (unat len + 8) else ucast len)
                         @ (if type fresh = JANUS_RECORDER_DATA
                            then htonll (word_of_int (janus_get_real_time_data e)) else [])
                         @ take (nat (sint len)) (fst (edit_packet_header e fresh buf))))"
    by (intro exI conjI)
next
  assume a: "header rc \<and> run rc cs = Some later \<and>
    janus_recorder_save_frame e' (Some later) packet n = Some (code, Some final, packet')"
  note hd = a[THEN conjunct1] and run = a[THEN conjunct2, THEN conjunct1]
    and sf = a[THEN conjunct2, THEN conjunct2]
  from run_keeps_header[OF hd run] show hl: "header later" and sl: "started later = started rc"
    by simp_all
  from save_frame_keeps_header[OF hl sf] sl show "header final" "started final = started rc"
    by simp_all
next
  assume a: "header rc \<and> run rc cs = Some later \<and>
    janus_recorder_save_frame e' (Some later) packet n = Some (code, Some final, packet')"
  note hd = a[THEN conjunct1] and run = a[THEN conjunct2, THEN conjunct1]
    and sf = a[THEN conjunct2, THEN conjunct2]
  assume c: "code = 0 \<and> fwrite_accepts e' = []"
  from run_keeps_header[OF hd run] have hl: "header later" and sl: "started later = started rc"
    by simp_all
  from c sf have sf0: "janus_recorder_save_frame e' (Some later) packet n = Some (0, Some final, packet')"
    by simp
  from save_frame_accepted[OF sf0] obtain buf f where
    b: "packet = Some buf" and l: "1 \<le> n" and f: "file' later = Some f" and
    w: "writable later" "\<not> paused later" and
    h: "type later \<noteq> JANUS_RECORDER_DATA \<longrightarrow> 12 \<le> length buf" and
    p: "0 < sint n \<longrightarrow> unat n \<le> length buf"
    by auto
  note sw = save_frame_written[OF f w l hl c[THEN conjunct2] h p, unfolded sl]
  from sw sf0 b have "file' final =
              Some (f @ bytes_of frame_header
                      @ htonl (word_of_int (if janus_get_monotonic_time e' > started rc
                                            then (janus_get_monotonic_time e' - started rc) div 1000
                                            else 0))
                      @ htons (if type later = JANUS_RECORDER_DATA
                               then word_of_nat (unat n + 8) else ucast n)
                      @ (if type later = JANUS_RECORDER_DATA
                         then htonll (word_of_int (janus_get_real_time_data e')) else [])
                      @ take (nat (sint n)) (fst (edit_packet_header e' later buf)))"
    by auto
  with f b show "\<exists>f buf. file' later = Some f \<and> packet = Some buf \<and>
            file' final =
              Some (f @ bytes_of frame_header
                      @ htonl (word_of_int (if janus_get_monotonic_time e' > started rc
                                            then (janus_get_monotonic_time e' - started rc) div 1000
                                            else 0))
                      @ htons (if type later = JANUS_RECORDER_DATA
                               then word_of_nat (unat n + 8) else ucast n)
                      @ (if type later = JANUS_RECORDER_DATA
                         then htonll (word_of_int (janus_get_real_time_data e')) else [])
                      @ take (nat (sint n)) (fst (edit_packet_header e' later buf)))"
    by (intro exI conjI)
qed

text \<open>The stream takes the info block and the frame header and then nothing of the
  payload: the write returns -6, the header flag is set and the block is in the stream.
  The next write is the first to return 0; it adds a frame and no info block.\<close>

theorem info_header_by_failed_write:
  "janus_recorder_save_frame (example_env\<lparr>fwrite_accepts := [2, 2, 4, 4, 2, 0]\<rparr>)
       (Some (example_recorder JANUS_RECORDER_AUDIO ''opus''))
       (Some example_packet) 13 =
     Some (-6,
           Some ((example_recorder JANUS_RECORDER_AUDIO ''opus'')
                \<lparr>started := 1000000, header := True,
                 file' := Some [77, 74, 82, 48, 48, 48, 48, 50, 0, 2, 123, 125,
                                77, 69, 69, 84, 0, 0, 0, 0, 0, 13],
                 context' := \<lparr>ts_reset = False, seq_reset = False, last_time = 0, ctx_other = []\<rparr>\<rparr>),
           Some example_packet) \<and>
   janus_recorder_save_frame (example_env\<lparr>janus_get_monotonic_time := 1020000\<rparr>)
       (Some ((example_recorder JANUS_RECORDER_AUDIO ''opus'')
                \<lparr>started := 1000000, header := True,
                 file' := Some [77, 74, 82, 48, 48, 48, 48, 50, 0, 2, 123, 125,
                                77, 69, 69, 84, 0, 0, 0, 0, 0, 13],
                 context' := \<lparr>ts_reset = False, seq_reset = False, last_time = 0, ctx_other = []\<rparr>\<rparr>))
       (Some example_packet) 13 =
     Some (0,
           Some ((example_recorder JANUS_RECORDER_AUDIO ''opus'')
                \<lparr>started := 1000000, header := True,
                 file' := Some [77, 74, 82, 48, 48, 48, 48, 50, 0, 2, 123, 125,
                                77, 69, 69, 84, 0, 0, 0, 0, 0, 13,
                                77, 69, 69, 84, 0, 0, 0, 20, 0, 13, 128, 111, 0, 17, 0, 0, 0, 34, 0, 0, 0, 51, 255],
                 context' := \<lparr>ts_reset = False, seq_reset = False, last_time = 0, ctx_other = []\<rparr>\<rparr>),
           Some example_packet)"
proof -
  have a: "janus_recorder_save_frame (example_env\<lparr>fwrite_accepts := [2, 2, 4, 4, 2, 0]\<rparr>)
       (Some (example_recorder JANUS_RECORDER_AUDIO ''opus''))
       (Some example_packet) 13 =
     Some (-6,
           Some ((example_recorder JANUS_RECORDER_AUDIO ''opus'')
                \<lparr>started := 1000000, header := True,
                 file' := Some [77, 74, 82, 48, 48, 48, 48, 50, 0, 2, 123, 125,
                                77, 69, 69, 84, 0, 0, 0, 0, 0, 13],
                 context' := \<lparr>ts_reset = False, seq_reset = False, last_time = 0, ctx_other = []\<rparr>\<rparr>),
           Some example_packet)"
    by (simp add: example_defs save_frame_defs)
  have b: "janus_recorder_save_frame (example_env\<lparr>janus_get_monotonic_time := 1020000\<rparr>)
       (Some ((example_recorder JANUS_RECORDER_AUDIO ''opus'')
                \<lparr>started := 1000000, header := True,
                 file' := Some [77, 74, 82, 48, 48, 48, 48, 50, 0, 2, 123, 125,
                                77, 69, 69, 84, 0, 0, 0, 0, 0, 13],
                 context' := \<lparr>ts_reset = False, seq_reset = False, last_time = 0, ctx_other = []\<rparr>\<rparr>))
       (Some example_packet) 13 =
     Some (0,
           Some ((example_recorder JANUS_RECORDER_AUDIO ''opus'')
                \<lparr>started := 1000000, header := True,
                 file' := Some [77, 74, 82, 48, 48, 48, 48, 50, 0, 2, 123, 125,
                                77, 69, 69, 84, 0, 0, 0, 0, 0, 13,
                                77, 69, 69, 84, 0, 0, 0, 20, 0, 13, 128, 111, 0, 17, 0, 0, 0, 34, 0, 0, 0, 51, 255],
                 context' := \<lparr>ts_reset = False, seq_reset = False, last_time = 0, ctx_other = []\<rparr>\<rparr>),
           Some example_packet)"
    by (simp add: example_defs save_frame_defs)
  show ?thesis by (intro conjI a b)
qed

theorem info_header_written_once_witness:
  "janus_recorder_save_frame example_env
       (Some (example_recorder JANUS_RECORDER_AUDIO ''opus''))
       (Some example_packet) 13 =
     Some (0,
           Some ((example_recorder JANUS_RECORDER_AUDIO ''opus'')
                \<lparr>started := 1000000, header := True,
                 file' := Some [77, 74, 82, 48, 48, 48, 48, 50, 0, 2, 123, 125,
                                77, 69, 69, 84, 0, 0, 0, 0, 0, 13, 128, 111, 0, 17, 0, 0, 0, 34, 0, 0, 0, 51, 255],
                 context' := \<lparr>ts_reset = False, seq_reset = False, last_time = 0, ctx_other = []\<rparr>\<rparr>),
           Some example_packet) \<and>
   run ((example_recorder JANUS_RECORDER_AUDIO ''opus'')
                \<lparr>started := 1000000, header := True,
                 file' := Some [77, 74, 82, 48, 48, 48, 48, 50, 0, 2, 123, 125,
                                77, 69, 69, 84, 0, 0, 0, 0, 0, 13, 128, 111, 0, 17, 0, 0, 0, 34, 0, 0, 0, 51, 255],
                 context' := \<lparr>ts_reset = False, seq_reset = False, last_time = 0, ctx_other = []\<rparr>\<rparr>)
       [PAUSE, RESUME (example_env\<lparr>janus_get_monotonic_time := 1010000\<rparr>), DESCRIPTION (Some ''late'')] =
     Some ((example_recorder JANUS_RECORDER_AUDIO ''opus'')
                \<lparr>started := 1000000, header := True,
                 file' := Some [77, 74, 82, 48, 48, 48, 48, 50, 0, 2, 123, 125,
                                77, 69, 69, 84, 0, 0, 0, 0, 0, 13, 128, 111, 0, 17, 0, 0, 0, 34, 0, 0, 0, 51, 255],
                 context' := \<lparr>ts_reset = True, seq_reset = True, last_time = 1010000, ctx_other = []\<rparr>\<rparr>) \<and>
   janus_recorder_save_frame (example_env\<lparr>janus_get_monotonic_time := 1020000\<rparr>)
       (Some ((example_recorder JANUS_RECORDER_AUDIO ''opus'')
                \<lparr>started := 1000000, header := True,
                 file' := Some [77, 74, 82, 48, 48, 48, 48, 50, 0, 2, 123, 125,
                                77, 69, 69, 84, 0, 0, 0, 0, 0, 13, 128, 111, 0, 17, 0, 0, 0, 34, 0, 0, 0, 51, 255],
                 context' := \<lparr>ts_reset = True, seq_reset = True, last_time = 1010000, ctx_other = []\<rparr>\<rparr>))
       (Some example_packet) 13 =
     Some (0,
           Some ((example_recorder JANUS_RECORDER_AUDIO ''opus'')
                \<lparr>started := 1000000, header := True,
                 file' := Some [77, 74, 82, 48, 48, 48, 48, 50, 0, 2, 123, 125,
                                77, 69, 69, 84, 0, 0, 0, 0, 0, 13, 128, 111, 0, 17, 0, 0, 0, 34, 0, 0, 0, 51, 255,
                                77, 69, 69, 84, 0, 0, 0, 20, 0, 13, 128, 111, 0, 17, 0, 0, 0, 34, 0, 0, 0, 51, 255],
                 context' := \<lparr>ts_reset = False, seq_reset = False, last_time = 1010000, ctx_other = []\<rparr>\<rparr>),
           Some example_packet) \<and>
   header ((example_recorder JANUS_RECORDER_AUDIO ''opus'')
                \<lparr>started := 1000000, header := True,
                 file' := Some [77, 74, 82, 48, 48, 48, 48, 50, 0, 2, 123, 125,
                                77, 69, 69, 84, 0, 0, 0, 0, 0, 13, 128, 111, 0, 17, 0, 0, 0, 34, 0, 0, 0, 51, 255],
                 context' := \<lparr>ts_reset = False, seq_reset = False, last_time = 0, ctx_other = []\<rparr>\<rparr>) \<and>
   started ((example_recorder JANUS_RECORDER_AUDIO ''opus'')
                \<lparr>started := 1000000, header := True,
                 file' := Some [77, 74, 82, 48, 48, 48, 48, 50, 0, 2, 123, 125,
                                77, 69, 69, 84, 0, 0, 0, 0, 0, 13, 128, 111, 0, 17, 0, 0, 0, 34, 0, 0, 0, 51, 255],
                 context' := \<lparr>ts_reset = False, seq_reset = False, last_time = 0, ctx_other = []\<rparr>\<rparr>) = 1000000 \<and>
   header ((example_recorder JANUS_RECORDER_AUDIO ''opus'')
                \<lparr>started := 1000000, header := True,
                 file' := Some [77, 74, 82, 48, 48, 48, 48, 50, 0, 2, 123, 125,
                                77, 69, 69, 84, 0, 0, 0, 0, 0, 13, 128, 111, 0, 17, 0, 0, 0, 34, 0, 0, 0, 51, 255,
                                77, 69, 69, 84, 0, 0, 0, 20, 0, 13, 128, 111, 0, 17, 0, 0, 0, 34, 0, 0, 0, 51, 255],
                 context' := \<lparr>ts_reset = False, seq_reset = False, last_time = 1010000, ctx_other = []\<rparr>\<rparr>) \<and>
   started ((example_recorder JANUS_RECORDER_AUDIO ''opus'')
                \<lparr>started := 1000000, header := True,
                 file' := Some [77, 74, 82, 48, 48, 48, 48, 50, 0, 2, 123, 125,
                                77, 69, 69, 84, 0, 0, 0, 0, 0, 13, 128, 111, 0, 17, 0, 0, 0, 34, 0, 0, 0, 51, 255,
                                77, 69, 69, 84, 0, 0, 0, 20, 0, 13, 128, 111, 0, 17, 0, 0, 0, 34, 0, 0, 0, 51, 255],
                 context' := \<lparr>ts_reset = False, seq_reset = False, last_time = 1010000, ctx_other = []\<rparr>\<rparr>) = 1000000"
proof -
  have a: "janus_recorder_save_frame example_env
       (Some (example_recorder JANUS_RECORDER_AUDIO ''opus''))
       (Some example_packet) 13 =
     Some (0,
           Some ((example_recorder JANUS_RECORDER_AUDIO ''opus'')
                \<lparr>started := 1000000, header := True,
                 file' := Some [77, 74, 82, 48, 48, 48, 48, 50, 0, 2, 123, 125,
                                77, 69, 69, 84, 0, 0, 0, 0, 0, 13, 128, 111, 0, 17, 0, 0, 0, 34, 0, 0, 0, 51, 255],
                 context' := \<lparr>ts_reset = False, seq_reset = False, last_time = 0, ctx_other = []\<rparr>\<rparr>),
           Some example_packet)"
    by (simp add: example_defs save_frame_defs)
  have b: "run ((example_recorder JANUS_RECORDER_AUDIO ''opus'')
                \<lparr>started := 1000000, header := True,
                 file' := Some [77, 74, 82, 48, 48, 48, 48, 50, 0, 2, 123, 125,
                                77, 69, 69, 84, 0, 0, 0, 0, 0, 13, 128, 111, 0, 17, 0, 0, 0, 34, 0, 0, 0, 51, 255],
                 context' := \<lparr>ts_reset = False, seq_reset = False, last_time = 0, ctx_other = []\<rparr>\<rparr>)
       [PAUSE, RESUME (example_env\<lparr>janus_get_monotonic_time := 1010000\<rparr>), DESCRIPTION (Some ''late'')] =
     Some ((example_recorder JANUS_RECORDER_AUDIO ''opus'')
                \<lparr>started := 1000000, header := True,
                 file' := Some [77, 74, 82, 48, 48, 48, 48, 50, 0, 2, 123, 125,
                                77, 69, 69, 84, 0, 0, 0, 0, 0, 13, 128, 111, 0, 17, 0, 0, 0, 34, 0, 0, 0, 51, 255],
                 context' := \<lparr>ts_reset = True, seq_reset = True, last_time = 1010000, ctx_other = []\<rparr>\<rparr>)"
    by (simp add: example_defs janus_recorder_pause_def janus_recorder_resume_def
        janus_recorder_description_def g_atomic_int_compare_and_exchange_def Let_def)
  have c: "janus_recorder_save_frame (example_env\<lparr>janus_get_monotonic_time := 1020000\<rparr>)
       (Some ((example_recorder JANUS_RECORDER_AUDIO ''opus'')
                \<lparr>started := 1000000, header := True,
                 file' := Some [77, 74, 82, 48, 48, 48, 48, 50, 0, 2, 123, 125,
                                77, 69, 69, 84, 0, 0, 0, 0, 0, 13, 128, 111, 0, 17, 0, 0, 0, 34, 0, 0, 0, 51, 255],
                 context' := \<lparr>ts_reset = True, seq_reset = True, last_time = 1010000, ctx_other = []\<rparr>\<rparr>))
       (Some example_packet) 13 =
     Some (0,
           Some ((example_recorder JANUS_RECORDER_AUDIO ''opus'')
                \<lparr>started := 1000000, header := True,
                 file' := Some [77, 74, 82, 48, 48, 48, 48, 50, 0, 2, 123, 125,
                                77, 69, 69, 84, 0, 0, 0, 0, 0, 13, 128, 111, 0, 17, 0, 0, 0, 34, 0, 0, 0, 51, 255,
                                77, 69, 69, 84, 0, 0, 0, 20, 0, 13, 128, 111, 0, 17, 0, 0, 0, 34, 0, 0, 0, 51, 255],
                 context' := \<lparr>ts_reset = False, seq_reset = False, last_time = 1010000, ctx_other = []\<rparr>\<rparr>),
           Some example_packet)"
    by (simp add: example_defs save_frame_defs)
  have d: "header ((example_recorder JANUS_RECORDER_AUDIO ''opus'')
                \<lparr>started := 1000000, header := True,
                 file' := Some [77, 74, 82, 48, 48, 48, 48, 50, 0, 2, 123, 125,
                                77, 69, 69, 84, 0, 0, 0, 0, 0, 13, 128, 111, 0, 17, 0, 0, 0, 34, 0, 0, 0, 51, 255],
                 context' := \<lparr>ts_reset = False, seq_reset = False, last_time = 0, ctx_other = []\<rparr>\<rparr>)"
    using info_header_written_once[where fresh = "example_recorder JANUS_RECORDER_AUDIO ''opus''" and e = example_env and
      buffer = "Some example_packet" and len = 13 and r = 0 and buffer' = "Some example_packet" and
      written = "(example_recorder JANUS_RECORDER_AUDIO ''opus'')
                \<lparr>started := 1000000, header := True,
                 file' := Some [77, 74, 82, 48, 48, 48, 48, 50, 0, 2, 123, 125,
                                77, 69, 69, 84, 0, 0, 0, 0, 0, 13, 128, 111, 0, 17, 0, 0, 0, 34, 0, 0, 0, 51, 255],
                 context' := \<lparr>ts_reset = False, seq_reset = False, last_time = 0, ctx_other = []\<rparr>\<rparr>" and
      rc = "(example_recorder JANUS_RECORDER_AUDIO ''opus'')
                \<lparr>started := 1000000, header := True,
                 file' := Some [77, 74, 82, 48, 48, 48, 48, 50, 0, 2, 123, 125,
                                77, 69, 69, 84, 0, 0, 0, 0, 0, 13, 128, 111, 0, 17, 0, 0, 0, 34, 0, 0, 0, 51, 255],
                 context' := \<lparr>ts_reset = False, seq_reset = False, last_time = 0, ctx_other = []\<rparr>\<rparr>" and
      cs = "[PAUSE, RESUME (example_env\<lparr>janus_get_monotonic_time := 1010000\<rparr>), DESCRIPTION (Some ''late'')]" and
      later = "(example_recorder JANUS_RECORDER_AUDIO ''opus'')
                \<lparr>started := 1000000, header := True,
                 file' := Some [77, 74, 82, 48, 48, 48, 48, 50, 0, 2, 123, 125,
                                77, 69, 69, 84, 0, 0, 0, 0, 0, 13, 128, 111, 0, 17, 0, 0, 0, 34, 0, 0, 0, 51, 255],
                 context' := \<lparr>ts_reset = True, seq_reset = True, last_time = 1010000, ctx_other = []\<rparr>\<rparr>" and
      e' = "example_env\<lparr>janus_get_monotonic_time := 1020000\<rparr>" and packet = "Some example_packet" and n = 13 and code = 0 and
      packet' = "Some example_packet" and
      final = "(example_recorder JANUS_RECORDER_AUDIO ''opus'')
                \<lparr>started := 1000000, header := True,
                 file' := Some [77, 74, 82, 48, 48, 48, 48, 50, 0, 2, 123, 125,
                                77, 69, 69, 84, 0, 0, 0, 0, 0, 13, 128, 111, 0, 17, 0, 0, 0, 34, 0, 0, 0, 51, 255,
                                77, 69, 69, 84, 0, 0, 0, 20, 0, 13, 128, 111, 0, 17, 0, 0, 0, 34, 0, 0, 0, 51, 255],
                 context' := \<lparr>ts_reset = False, seq_reset = False, last_time = 1010000, ctx_other = []\<rparr>\<rparr>"] a
    by (simp add: example_recorder_def)
  have e: "started ((example_recorder JANUS_RECORDER_AUDIO ''opus'')
                \<lparr>started := 1000000, header := True,
                 file' := Some [77, 74, 82, 48, 48, 48, 48, 50, 0, 2, 123, 125,
                                77, 69, 69, 84, 0, 0, 0, 0, 0, 13, 128, 111, 0, 17, 0, 0, 0, 34, 0, 0, 0, 51, 255],
                 context' := \<lparr>ts_reset = False, seq_reset = False, last_time = 0, ctx_other = []\<rparr>\<rparr>) = 1000000"
    using info_header_written_once[where fresh = "example_recorder JANUS_RECORDER_AUDIO ''opus''" and e = example_env and
      buffer = "Some example_packet" and len = 13 and r = 0 and buffer' = "Some example_packet" and
      written = "(example_recorder JANUS_RECORDER_AUDIO ''opus'')
                \<lparr>started := 1000000, header := True,
                 file' := Some [77, 74, 82, 48, 48, 48, 48, 50, 0, 2, 123, 125,
                                77, 69, 69, 84, 0, 0, 0, 0, 0, 13, 128, 111, 0, 17, 0, 0, 0, 34, 0, 0, 0, 51, 255],
                 context' := \<lparr>ts_reset = False, seq_reset = False, last_time = 0, ctx_other = []\<rparr>\<rparr>" and
      rc = "(example_recorder JANUS_RECORDER_AUDIO ''opus'')
                \<lparr>started := 1000000, header := True,
                 file' := Some [77, 74, 82, 48, 48, 48, 48, 50, 0, 2, 123, 125,
                                77, 69, 69, 84, 0, 0, 0, 0, 0, 13, 128, 111, 0, 17, 0, 0, 0, 34, 0, 0, 0, 51, 255],
                 context' := \<lparr>ts_reset = False, seq_reset = False, last_time = 0, ctx_other = []\<rparr>\<rparr>" and
      cs = "[PAUSE, RESUME (example_env\<lparr>janus_get_monotonic_time := 1010000\<rparr>), DESCRIPTION (Some ''late'')]" and
      later = "(example_recorder JANUS_RECORDER_AUDIO ''opus'')
                \<lparr>started := 1000000, header := True,
                 file' := Some [77, 74, 82, 48, 48, 48, 48, 50, 0, 2, 123, 125,
                                77, 69, 69, 84, 0, 0, 0, 0, 0, 13, 128, 111, 0, 17, 0, 0, 0, 34, 0, 0, 0, 51, 255],
                 context' := \<lparr>ts_reset = True, seq_reset = True, last_time = 1010000, ctx_other = []\<rparr>\<rparr>" and
      e' = "example_env\<lparr>janus_get_monotonic_time := 1020000\<rparr>" and packet = "Some example_packet" and n = 13 and code = 0 and
      packet' = "Some example_packet" and
      final = "(example_recorder JANUS_RECORDER_AUDIO ''opus'')
                \<lparr>started := 1000000, header := True,
                 file' := Some [77, 74, 82, 48, 48, 48, 48, 50, 0, 2, 123, 125,
                                77, 69, 69, 84, 0, 0, 0, 0, 0, 13, 128, 111, 0, 17, 0, 0, 0, 34, 0, 0, 0, 51, 255,
                                77, 69, 69, 84, 0, 0, 0, 20, 0, 13, 128, 111, 0, 17, 0, 0, 0, 34, 0, 0, 0, 51, 255],
                 context' := \<lparr>ts_reset = False, seq_reset = False, last_time = 1010000, ctx_other = []\<rparr>\<rparr>"] a
    by (simp add: example_recorder_def)
  have f: "header ((example_recorder JANUS_RECORDER_AUDIO ''opus'')
                \<lparr>started := 1000000, header := True,
                 file' := Some [77, 74, 82, 48, 48, 48, 48, 50, 0, 2, 123, 125,
                                77, 69, 69, 84, 0, 0, 0, 0, 0, 13, 128, 111, 0, 17, 0, 0, 0, 34, 0, 0, 0, 51, 255,
                                77, 69, 69, 84, 0, 0, 0, 20, 0, 13, 128, 111, 0, 17, 0, 0, 0, 34, 0, 0, 0, 51, 255],
                 context' := \<lparr>ts_reset = False, seq_reset = False, last_time = 1010000, ctx_other = []\<rparr>\<rparr>)"
    using info_header_written_once[where fresh = "example_recorder JANUS_RECORDER_AUDIO ''opus''" and e = example_env and
      buffer = "Some example_packet" and len = 13 and r = 0 and buffer' = "Some example_packet" and
      written = "(example_recorder JANUS_RECORDER_AUDIO ''opus'')
                \<lparr>started := 1000000, header := True,
                 file' := Some [77, 74, 82, 48, 48, 48, 48, 50, 0, 2, 123, 125,
                                77, 69, 69, 84, 0, 0, 0, 0, 0, 13, 128, 111, 0, 17, 0, 0, 0, 34, 0, 0, 0, 51, 255],
                 context' := \<lparr>ts_reset = False, seq_reset = False, last_time = 0, ctx_other = []\<rparr>\<rparr>" and
      rc = "(example_recorder JANUS_RECORDER_AUDIO ''opus'')
                \<lparr>started := 1000000, header := True,
                 file' := Some [77, 74, 82, 48, 48, 48, 48, 50, 0, 2, 123, 125,
                                77, 69, 69, 84, 0, 0, 0, 0, 0, 13, 128, 111, 0, 17, 0, 0, 0, 34, 0, 0, 0, 51, 255],
                 context' := \<lparr>ts_reset = False, seq_reset = False, last_time = 0, ctx_other = []\<rparr>\<rparr>" and
      cs = "[PAUSE, RESUME (example_env\<lparr>janus_get_monotonic_time := 1010000\<rparr>), DESCRIPTION (Some ''late'')]" and
      later = "(example_recorder JANUS_RECORDER_AUDIO ''opus'')
                \<lparr>started := 1000000, header := True,
                 file' := Some [77, 74, 82, 48, 48, 48, 48, 50, 0, 2, 123, 125,
                                77, 69, 69, 84, 0, 0, 0, 0, 0, 13, 128, 111, 0, 17, 0, 0, 0, 34, 0, 0, 0, 51, 255],
                 context' := \<lparr>ts_reset = True, seq_reset = True, last_time = 1010000, ctx_other = []\<rparr>\<rparr>" and
      e' = "example_env\<lparr>janus_get_monotonic_time := 1020000\<rparr>" and packet = "Some example_packet" and n = 13 and code = 0 and
      packet' = "Some example_packet" and
      final = "(example_recorder JANUS_RECORDER_AUDIO ''opus'')
                \<lparr>started := 1000000, header := True,
                 file' := Some [77, 74, 82, 48, 48, 48, 48, 50, 0, 2, 123, 125,
                                77, 69, 69, 84, 0, 0, 0, 0, 0, 13, 128, 111, 0, 17, 0, 0, 0, 34, 0, 0, 0, 51, 255,
                                77, 69, 69, 84, 0, 0, 0, 20, 0, 13, 128, 111, 0, 17, 0, 0, 0, 34, 0, 0, 0, 51, 255],
                 context' := \<lparr>ts_reset = False, seq_reset = False, last_time = 1010000, ctx_other = []\<rparr>\<rparr>"] b c
    by (simp add: example_recorder_def)
  have g: "started ((example_recorder JANUS_RECORDER_AUDIO ''opus'')
                \<lparr>started := 1000000, header := True,
                 file' := Some [77, 74, 82, 48, 48, 48, 48, 50, 0, 2, 123, 125,
                                77, 69, 69, 84, 0, 0, 0, 0, 0, 13, 128, 111, 0, 17, 0, 0, 0, 34, 0, 0, 0, 51, 255,
                                77, 69, 69, 84, 0, 0, 0, 20, 0, 13, 128, 111, 0, 17, 0, 0, 0, 34, 0, 0, 0, 51, 255],
                 context' := \<lparr>ts_reset = False, seq_reset = False, last_time = 1010000, ctx_other = []\<rparr>\<rparr>) = 1000000"
    using info_header_written_once[where fresh = "example_recorder JANUS_RECORDER_AUDIO ''opus''" and e = example_env and
      buffer = "Some example_packet" and len = 13 and r = 0 and buffer' = "Some example_packet" and
      written = "(example_recorder JANUS_RECORDER_AUDIO ''opus'')
                \<lparr>started := 1000000, header := True,
                 file' := Some [77, 74, 82, 48, 48, 48, 48, 50, 0, 2, 123, 125,
                                77, 69, 69, 84, 0, 0, 0, 0, 0, 13, 128, 111, 0, 17, 0, 0, 0, 34, 0, 0, 0, 51, 255],
                 context' := \<lparr>ts_reset = False, seq_reset = False, last_time = 0, ctx_other = []\<rparr>\<rparr>" and
      rc = "(example_recorder JANUS_RECORDER_AUDIO ''opus'')
                \<lparr>started := 1000000, header := True,
                 file' := Some [77, 74, 82, 48, 48, 48, 48, 50, 0, 2, 123, 125,
                                77, 69, 69, 84, 0, 0, 0, 0, 0, 13, 128, 111, 0, 17, 0, 0, 0, 34, 0, 0, 0, 51, 255],
                 context' := \<lparr>ts_reset = False, seq_reset = False, last_time = 0, ctx_other = []\<rparr>\<rparr>" and
      cs = "[PAUSE, RESUME (example_env\<lparr>janus_get_monotonic_time := 1010000\<rparr>), DESCRIPTION (Some ''late'')]" and
      later = "(example_recorder JANUS_RECORDER_AUDIO ''opus'')
                \<lparr>started := 1000000, header := True,
                 file' := Some [77, 74, 82, 48, 48, 48, 48, 50, 0, 2, 123, 125,
                                77, 69, 69, 84, 0, 0, 0, 0, 0, 13, 128, 111, 0, 17, 0, 0, 0, 34, 0, 0, 0, 51, 255],
                 context' := \<lparr>ts_reset = True, seq_reset = True, last_time = 1010000, ctx_other = []\<rparr>\<rparr>" and
      e' = "example_env\<lparr>janus_get_monotonic_time := 1020000\<rparr>" and packet = "Some example_packet" and n = 13 and code = 0 and
      packet' = "Some example_packet" and
      final = "(example_recorder JANUS_RECORDER_AUDIO ''opus'')
                \<lparr>started := 1000000, header := True,
                 file' := Some [77, 74, 82, 48, 48, 48, 48, 50, 0, 2, 123, 125,
                                77, 69, 69, 84, 0, 0, 0, 0, 0, 13, 128, 111, 0, 17, 0, 0, 0, 34, 0, 0, 0, 51, 255,
                                77, 69, 69, 84, 0, 0, 0, 20, 0, 13, 128, 111, 0, 17, 0, 0, 0, 34, 0, 0, 0, 51, 255],
                 context' := \<lparr>ts_reset = False, seq_reset = False, last_time = 1010000, ctx_other = []\<rparr>\<rparr>"] b c
    by (simp add: example_recorder_def)
  show ?thesis by (intro conjI a b c d e f g)
qed





end
